theory Spec2Isabelle
  imports Main "HOL-Library.AList"
begin

section \<open>Element trees\<close>

text \<open>
  The decoder of \<^verbatim>\<open>src/appv2.py\<close> (class \<^verbatim>\<open>XMLParser\<close>) walks an
  \<^verbatim>\<open>xml.etree.ElementTree\<close> element: a tag, an attribute dictionary, an optional
  text (\<^verbatim>\<open>None\<close> when the element has no character data before its first child)
  and the list of child elements in document order.
\<close>

datatype elem =
  Elem (tag: string) (attrib: "(string \<times> string) list") (etext: "string option")
       (children: "elem list")

text \<open>\<^verbatim>\<open>e.get(k)\<close> and \<^verbatim>\<open>e.get(k, d)\<close>.\<close>

definition get_attr :: "elem \<Rightarrow> string \<Rightarrow> string option" where
  "get_attr e k = map_of (attrib e) k"

definition get_attr_default :: "elem \<Rightarrow> string \<Rightarrow> string \<Rightarrow> string" where
  "get_attr_default e k d = (case map_of (attrib e) k of None \<Rightarrow> d | Some v \<Rightarrow> v)"

text \<open>\<^verbatim>\<open>e.findall(t)\<close> and \<^verbatim>\<open>e.find(t)\<close> for a plain tag: direct children only.\<close>

definition findall_elem :: "elem \<Rightarrow> string \<Rightarrow> elem list" where
  "findall_elem e t = filter (\<lambda>c. tag c = t) (children e)"

definition find_elem :: "elem \<Rightarrow> string \<Rightarrow> elem option" where
  "find_elem e t = (case findall_elem e t of [] \<Rightarrow> None | c # _ \<Rightarrow> Some c)"

text \<open>\<^verbatim>\<open>e.iter()\<close>: the element, then its descendants, in document order.\<close>

fun iter :: "elem \<Rightarrow> elem list" where
  "iter (Elem t a x cs) = Elem t a x cs # concat (map iter cs)"

text \<open>
  \<^verbatim>\<open>e.findall('.//t')\<close>: every descendant with tag \<open>t\<close>, at any depth, the element
  itself excluded; \<^verbatim>\<open>e.find(".//t[@k='v']")\<close>: the first of them whose attribute
  \<open>k\<close> is \<open>v\<close>.
\<close>

definition findall_desc :: "elem \<Rightarrow> string \<Rightarrow> elem list" where
  "findall_desc e t = filter (\<lambda>d. tag d = t) (concat (map iter (children e)))"

definition find_desc_attr :: "elem \<Rightarrow> string \<Rightarrow> string \<Rightarrow> string \<Rightarrow> elem option" where
  "find_desc_attr e t k v =
     (case filter (\<lambda>d. get_attr d k = Some v) (findall_desc e t) of
        [] \<Rightarrow> None
      | d # _ \<Rightarrow> Some d)"

section \<open>Decoded values\<close>

text \<open>
  A decoded slot holds \<^verbatim>\<open>None\<close>, a string, a float or the integer literal \<^verbatim>\<open>0\<close>.
  Floats stay abstract (type \<open>'n\<close>): Python's \<^verbatim>\<open>float\<close> on a string is a parameter
  \<open>pf\<close> of every decoding function, \<open>pf s = None\<close> standing for \<^verbatim>\<open>ValueError\<close>.
\<close>

datatype 'n pyval = PNone | PStr string | PFloat 'n | PInt int

datatype py_error = ValueError | KeyError string | ExpatError

text \<open>
  \<^verbatim>\<open>try: value = float(value_text) except (ValueError, TypeError): value = value_text\<close>;
  \<^verbatim>\<open>float(None)\<close> is the \<^verbatim>\<open>TypeError\<close>.
\<close>

definition coerce :: "(string \<Rightarrow> 'n option) \<Rightarrow> string option \<Rightarrow> 'n pyval" where
  "coerce pf value_text =
     (case value_text of
        None \<Rightarrow> PNone
      | Some s \<Rightarrow> (case pf s of Some x \<Rightarrow> PFloat x | None \<Rightarrow> PStr s))"

section \<open>Data groups: \<^verbatim>\<open>XMLParser.parse_datagroups\<close>\<close>

record prop_info =
  pi_id :: "string option"
  pi_name :: string
  pi_label :: string
  pi_units :: string
  pi_species :: "string option"
  pi_column_name :: string

text \<open>The f-string \<^verbatim>\<open>f"{a} ({u})"\<close>.\<close>

definition with_units :: "string \<Rightarrow> string \<Rightarrow> string" where
  "with_units a u = a @ '' ('' @ u @ '')''"

text \<open>The body of the loop over \<^verbatim>\<open>dg.findall('property')\<close>, lines 276 to 296.\<close>

definition parse_property :: "elem \<Rightarrow> prop_info" where
  "parse_property prop =
     (let prop_id = get_attr prop ''id'';
          name = get_attr_default prop ''name'' [];
          label = get_attr_default prop ''label'' [];
          units = get_attr_default prop ''units'' []
      in case find_elem prop ''speciesLink'' of
           Some species_link \<Rightarrow>
             (let key = get_attr_default species_link ''preferredKey'' []
              in \<lparr>pi_id = prop_id, pi_name = name, pi_label = label, pi_units = units,
                  pi_species = Some key, pi_column_name = with_units key units\<rparr>)
         | None \<Rightarrow>
             \<lparr>pi_id = prop_id, pi_name = name, pi_label = label, pi_units = units,
              pi_species = None,
              pi_column_name =
                (if label \<noteq> []
                 then (if units \<noteq> [] then with_units label units else label)
                 else (if units \<noteq> [] then with_units name units else name))\<rparr>)"

type_synonym property_map = "string option \<rightharpoonup> prop_info"

text \<open>
  The loop itself: \<^verbatim>\<open>property_map[prop_id] = prop_info\<close> (a later declaration of
  the same id rebinds it), \<^verbatim>\<open>column_order.append(prop_id)\<close> and
  \<^verbatim>\<open>dg_data['properties'].append(prop_info)\<close>.
\<close>

fun property_loop ::
  "elem list \<Rightarrow> property_map \<times> string option list \<times> prop_info list
     \<Rightarrow> property_map \<times> string option list \<times> prop_info list" where
  "property_loop [] st = st"
| "property_loop (prop # rest) (property_map, column_order, properties) =
     (let prop_info = parse_property prop
      in property_loop rest
           (property_map(pi_id prop_info \<mapsto> prop_info),
            column_order @ [pi_id prop_info],
            properties @ [prop_info]))"

text \<open>
  A row is a Python dictionary, which keeps insertion order: assigning to a key that is
  already there keeps its position, a new key goes to the end (\<open>AList.update\<close>).
\<close>

type_synonym 'n row = "(string \<times> 'n pyval) list"

text \<open>The loop over the children of one \<^verbatim>\<open>dataPoint\<close>, lines 309 to 322.\<close>

fun child_loop ::
  "(string \<Rightarrow> 'n option) \<Rightarrow> property_map \<Rightarrow> elem list \<Rightarrow> 'n row \<Rightarrow> 'n row" where
  "child_loop pf property_map [] point_data = point_data"
| "child_loop pf property_map (child # rest) point_data =
     (case property_map (Some (tag child)) of
        None \<Rightarrow> child_loop pf property_map rest point_data
      | Some prop_info \<Rightarrow>
          child_loop pf property_map rest
            (AList.update (pi_column_name prop_info) (coerce pf (etext child)) point_data))"

text \<open>
  The loop over \<^verbatim>\<open>dg.findall('dataPoint')\<close>: a non-empty row is appended both to
  \<^verbatim>\<open>dg_data['datapoints']\<close> and to \<^verbatim>\<open>data_rows\<close>.
\<close>

fun datapoint_loop ::
  "(string \<Rightarrow> 'n option) \<Rightarrow> property_map \<Rightarrow> elem list \<Rightarrow> 'n row list \<times> 'n row list
     \<Rightarrow> 'n row list \<times> 'n row list" where
  "datapoint_loop pf property_map [] st = st"
| "datapoint_loop pf property_map (dp # rest) (datapoints, data_rows) =
     (let point_data = child_loop pf property_map (children dp) []
      in datapoint_loop pf property_map rest
           (if point_data \<noteq> []
            then (datapoints @ [point_data], data_rows @ [point_data])
            else (datapoints, data_rows)))"

subsection \<open>The table (\<^verbatim>\<open>pandas.DataFrame\<close>)\<close>

text \<open>
  Of a data frame the decoder uses the column labels, the number of rows and the selection
  of columns. \<^verbatim>\<open>pd.DataFrame(rows)\<close> on a list of dictionaries takes the keys in the
  order in which they are first seen, row after row; a key that a row lacks is a missing
  cell (\<open>None\<close> below). \<^verbatim>\<open>df[cols]\<close> keeps the rows and takes the named columns, in
  the order given, repeated when a name is repeated; the decoder only selects names that
  are columns of the frame.
\<close>

record 'n dataframe =
  df_columns :: "string list"
  df_cells :: "'n pyval option list list"

fun add_keys :: "string list \<Rightarrow> string list \<Rightarrow> string list" where
  "add_keys acc [] = acc"
| "add_keys acc (k # ks) = add_keys (if k \<in> set acc then acc else acc @ [k]) ks"

fun union_keys :: "string list \<Rightarrow> 'n row list \<Rightarrow> string list" where
  "union_keys acc [] = acc"
| "union_keys acc (r # rs) = union_keys (add_keys acc (map fst r)) rs"

definition DataFrame :: "'n row list \<Rightarrow> 'n dataframe" where
  "DataFrame data_rows =
     (let cols = union_keys [] data_rows
      in \<lparr>df_columns = cols, df_cells = map (\<lambda>r. map (map_of r) cols) data_rows\<rparr>)"

definition df_select :: "string list \<Rightarrow> 'n dataframe \<Rightarrow> 'n dataframe" where
  "df_select cols df =
     \<lparr>df_columns = cols,
      df_cells =
        map (\<lambda>cells. map (\<lambda>c. case map_of (zip (df_columns df) cells) c of
                                  Some v \<Rightarrow> v
                                | None \<Rightarrow> None) cols)
            (df_cells df)\<rparr>"

text \<open>\<^verbatim>\<open>col.startswith('_')\<close>.\<close>

definition startswith_underscore :: "string \<Rightarrow> bool" where
  "startswith_underscore col = (case col of [] \<Rightarrow> False | c # _ \<Rightarrow> c = CHR ''_'')"

text \<open>The two loops that build \<^verbatim>\<open>ordered_columns\<close>, lines 332 to 341.\<close>

fun declared_loop ::
  "property_map \<Rightarrow> string list \<Rightarrow> string option list \<Rightarrow> string list \<Rightarrow> string list" where
  "declared_loop property_map display_columns [] ordered_columns = ordered_columns"
| "declared_loop property_map display_columns (prop_id # rest) ordered_columns =
     (case property_map prop_id of
        None \<Rightarrow> declared_loop property_map display_columns rest ordered_columns
      | Some prop_info \<Rightarrow>
          declared_loop property_map display_columns rest
            (if pi_column_name prop_info \<in> set display_columns
             then ordered_columns @ [pi_column_name prop_info]
             else ordered_columns))"

fun remaining_loop :: "string list \<Rightarrow> string list \<Rightarrow> string list" where
  "remaining_loop [] ordered_columns = ordered_columns"
| "remaining_loop (col # rest) ordered_columns =
     remaining_loop rest
       (if col \<notin> set ordered_columns then ordered_columns @ [col] else ordered_columns)"

record statistics =
  st_num_points :: nat
  st_columns :: "string list"
  st_shape :: "nat \<times> nat"

record 'n dg_data =
  dg_id :: string
  dg_label :: string
  dg_properties :: "prop_info list"
  dg_property_map :: property_map
  dg_datapoints :: "'n row list"
  dg_data_df :: "'n dataframe option"
  dg_statistics :: "statistics option"

text \<open>
  The body of the loop over \<^verbatim>\<open>root.findall('.//dataGroup')\<close>. The key
  \<^verbatim>\<open>'statistics'\<close> is only set inside \<^verbatim>\<open>if data_rows:\<close>; an absent key is
  \<open>None\<close>.
\<close>

definition parse_datagroup :: "(string \<Rightarrow> 'n option) \<Rightarrow> elem \<Rightarrow> 'n dg_data" where
  "parse_datagroup pf dg =
     (case property_loop (findall_elem dg ''property'') (Map.empty, [], []) of
        (property_map, column_order, properties) \<Rightarrow>
     (case datapoint_loop pf property_map (findall_elem dg ''dataPoint'') ([], []) of
        (datapoints, data_rows) \<Rightarrow>
     (let dg_data = \<lparr>dg_id = get_attr_default dg ''id'' [],
                     dg_label = get_attr_default dg ''label'' [],
                     dg_properties = properties,
                     dg_property_map = property_map,
                     dg_datapoints = datapoints,
                     dg_data_df = None,
                     dg_statistics = None\<rparr>
      in if data_rows \<noteq> [] then
           (let df = DataFrame data_rows;
                display_columns = filter (\<lambda>col. \<not> startswith_underscore col) (df_columns df);
                ordered_columns =
                  remaining_loop display_columns
                    (declared_loop property_map display_columns column_order []);
                df = (if ordered_columns \<noteq> [] then df_select ordered_columns df else df)
            in dg_data\<lparr>dg_data_df := Some df,
                       dg_statistics :=
                         Some \<lparr>st_num_points = length (df_cells df),
                               st_columns = df_columns df,
                               st_shape = (length (df_cells df), length (df_columns df))\<rparr>\<rparr>)
         else dg_data)))"

definition parse_datagroups :: "(string \<Rightarrow> 'n option) \<Rightarrow> elem \<Rightarrow> 'n dg_data list" where
  "parse_datagroups pf root = map (parse_datagroup pf) (findall_desc root ''dataGroup'')"

section \<open>Common properties: \<^verbatim>\<open>XMLParser.parse_common_properties\<close>\<close>

record 'n comp_entry =
  ce_amount :: "'n pyval"
  ce_units :: string

type_synonym 'n composition = "(string \<times> 'n comp_entry) list"

text \<open>
  The dictionary \<^verbatim>\<open>properties\<close> holds, under a property's key, the dictionary
  \<^verbatim>\<open>{'value', 'units', 'name'}\<close> and, under \<^verbatim>\<open>'initial_composition'\<close>, the
  composition dictionary.
\<close>

datatype 'n cp_entry =
  Scalar (cp_value: "'n pyval") (cp_units: string) (cp_name: string)
| Composition "'n composition"

type_synonym 'n common_properties = "(string \<times> 'n cp_entry) list"

text \<open>
  The loop over \<^verbatim>\<open>common_props.findall('property')\<close>, lines 217 to 237. The value
  is the coerced text of the \<^verbatim>\<open>value\<close> child when there is one, else the property's
  own text; the key is \<^verbatim>\<open>label if label else name\<close>.
\<close>

definition property_value :: "(string \<Rightarrow> 'n option) \<Rightarrow> elem \<Rightarrow> 'n pyval" where
  "property_value pf prop =
     (case find_elem prop ''value'' of
        Some value_elem \<Rightarrow> coerce pf (etext value_elem)
      | None \<Rightarrow> (case etext prop of None \<Rightarrow> PNone | Some s \<Rightarrow> PStr s))"

definition property_key :: "elem \<Rightarrow> string" where
  "property_key prop =
     (let name = get_attr_default prop ''name'' [];
          label = get_attr_default prop ''label'' []
      in if label \<noteq> [] then label else name)"

fun common_loop ::
  "(string \<Rightarrow> 'n option) \<Rightarrow> elem list \<Rightarrow> 'n common_properties \<Rightarrow> 'n common_properties" where
  "common_loop pf [] properties = properties"
| "common_loop pf (prop # rest) properties =
     common_loop pf rest
       (AList.update (property_key prop)
          (Scalar (property_value pf prop) (get_attr_default prop ''units'' [])
             (get_attr_default prop ''name'' []))
          properties)"

text \<open>
  \<^verbatim>\<open>float(amount.text) if amount.text else 0\<close>: a text that is \<^verbatim>\<open>None\<close> or empty
  gives the integer \<^verbatim>\<open>0\<close>; any other text goes to \<^verbatim>\<open>float\<close>, outside any
  \<^verbatim>\<open>try\<close>.
\<close>

definition amount_value :: "(string \<Rightarrow> 'n option) \<Rightarrow> string option \<Rightarrow> py_error + 'n pyval" where
  "amount_value pf amount_text =
     (case amount_text of
        None \<Rightarrow> Inr (PInt 0)
      | Some s \<Rightarrow>
          (if s = [] then Inr (PInt 0)
           else (case pf s of None \<Rightarrow> Inl ValueError | Some x \<Rightarrow> Inr (PFloat x))))"

text \<open>The loop over \<^verbatim>\<open>initial_comp.findall('component')\<close>, lines 243 to 252.\<close>

fun component_loop ::
  "(string \<Rightarrow> 'n option) \<Rightarrow> elem list \<Rightarrow> 'n composition \<Rightarrow> py_error + 'n composition" where
  "component_loop pf [] composition = Inr composition"
| "component_loop pf (component # rest) composition =
     (case (find_elem component ''speciesLink'', find_elem component ''amount'') of
        (Some species_link, Some amount) \<Rightarrow>
          (let species_key = get_attr_default species_link ''preferredKey'' []
           in case amount_value pf (etext amount) of
                Inl e \<Rightarrow> Inl e
              | Inr a \<Rightarrow>
                  component_loop pf rest
                    (AList.update species_key
                       \<lparr>ce_amount = a, ce_units = get_attr_default amount ''units'' []\<rparr>
                       composition))
      | _ \<Rightarrow> component_loop pf rest composition)"

definition parse_common_properties ::
  "(string \<Rightarrow> 'n option) \<Rightarrow> elem \<Rightarrow> py_error + 'n common_properties" where
  "parse_common_properties pf root =
     (case find_elem root ''commonProperties'' of
        None \<Rightarrow> Inr []
      | Some common_props \<Rightarrow>
          (let properties = common_loop pf (findall_elem common_props ''property'') []
           in case find_desc_attr common_props ''property'' ''name'' ''initial composition'' of
                None \<Rightarrow> Inr properties
              | Some initial_comp \<Rightarrow>
                  (case component_loop pf (findall_elem initial_comp ''component'') [] of
                     Inl e \<Rightarrow> Inl e
                   | Inr composition \<Rightarrow>
                       Inr (AList.update ''initial_composition'' (Composition composition)
                              properties))))"

section \<open>Structural validation: \<^verbatim>\<open>validate_xml_structure\<close>\<close>





section \<open>The encoder: \<^verbatim>\<open>create_enhanced_xml\<close>\<close>

text \<open>
  The draft lives in the session state: \<^verbatim>\<open>new_exp_data\<close> with the dictionaries
  \<^verbatim>\<open>'basic_info'\<close> and \<^verbatim>\<open>'conditions'\<close>, \<^verbatim>\<open>optional_params\<close> and the list
  \<^verbatim>\<open>data_groups_new\<close>. Every dictionary is a record of optional fields, \<open>None\<close> for
  a key that is not there; a scalar is a string or a number (\<open>'n\<close>, with Python's
  \<^verbatim>\<open>str\<close> on numbers as the parameter \<open>pystr\<close>).
\<close>

datatype 'n dval = DStr string | DNum 'n

definition str_of :: "('n \<Rightarrow> string) \<Rightarrow> 'n dval \<Rightarrow> string" where
  "str_of pystr v = (case v of DStr s \<Rightarrow> s | DNum x \<Rightarrow> pystr x)"

text \<open>Truth values of \<^verbatim>\<open>d.get(k)\<close>: a missing key, an empty string and zero are false.\<close>

definition truthy_str :: "string option \<Rightarrow> bool" where
  "truthy_str v = (case v of None \<Rightarrow> False | Some s \<Rightarrow> s \<noteq> [])"

definition truthy_dval :: "('n::zero) dval option \<Rightarrow> bool" where
  "truthy_dval v =
     (case v of None \<Rightarrow> False | Some (DStr s) \<Rightarrow> s \<noteq> [] | Some (DNum x) \<Rightarrow> x \<noteq> 0)"

record 'n reference =
  ref_author :: "string option"
  ref_title :: "string option"
  ref_journal :: "string option"
  ref_year :: "'n dval option"
  ref_doi :: "string option"

record 'n basic_info =
  bi_author :: "string option"
  bi_doi :: "string option"
  bi_exp_type :: "string option"
  bi_reactor :: "string option"
  bi_reference :: "'n reference option"

record 'n quantity =
  q_value :: "'n dval option"
  q_units :: "string option"

record 'n comp =
  c_species :: "string option"
  c_amount :: "'n dval option"
  c_units :: "string option"
  c_CAS :: "string option"
  c_chemName :: "string option"
  c_InChI :: "string option"
  c_SMILES :: "string option"

record 'n conditions =
  cond_temperature :: "'n quantity option"
  cond_pressure :: "'n quantity option"
  cond_reactor_params :: "(string \<times> 'n) list option"
  cond_composition :: "'n comp list option"

record axis =
  ax_id :: "string option"
  ax_name :: "string option"
  ax_label :: "string option"
  ax_unit :: "string option"
  ax_species :: "string option"

type_synonym 'n drow = "(string \<times> 'n dval) list"

record 'n dgroup =
  g_id :: "string option"
  g_name :: "string option"
  g_x_axis :: "axis option"
  g_y_axes :: "axis list option"
  g_columns :: "string list option"
  g_data :: "'n drow list option"

record 'n draft =
  d_basic_info :: "'n basic_info option"
  d_conditions :: "'n conditions option"
  d_optional_params :: "(string \<times> 'n dval) list"
  d_data_groups :: "'n dgroup list"

text \<open>\<^verbatim>\<open>new_exp_data.get('basic_info', {})\<close>: a missing dictionary is the empty one.\<close>

definition empty_basic_info :: "'n basic_info" where
  "empty_basic_info =
     \<lparr>bi_author = None, bi_doi = None, bi_exp_type = None, bi_reactor = None,
      bi_reference = None\<rparr>"

definition empty_reference :: "'n reference" where
  "empty_reference =
     \<lparr>ref_author = None, ref_title = None, ref_journal = None, ref_year = None,
      ref_doi = None\<rparr>"

definition empty_conditions :: "'n conditions" where
  "empty_conditions =
     \<lparr>cond_temperature = None, cond_pressure = None, cond_reactor_params = None,
      cond_composition = None\<rparr>"

text \<open>\<^verbatim>\<open>d[k]\<close> raises \<^verbatim>\<open>KeyError\<close> on a missing key; \<open>and_then\<close> sequences.\<close>

definition subscript :: "string \<Rightarrow> 'a option \<Rightarrow> py_error + 'a" where
  "subscript k v = (case v of None \<Rightarrow> Inl (KeyError k) | Some x \<Rightarrow> Inr x)"

definition and_then :: "py_error + 'a \<Rightarrow> ('a \<Rightarrow> py_error + 'b) \<Rightarrow> py_error + 'b" where
  "and_then r f = (case r of Inl e \<Rightarrow> Inl e | Inr x \<Rightarrow> f x)"

fun for_each :: "('a \<Rightarrow> py_error + 'b) \<Rightarrow> 'a list \<Rightarrow> py_error + 'b list" where
  "for_each f [] = Inr []"
| "for_each f (x # xs) =
     and_then (f x) (\<lambda>y. and_then (for_each f xs) (\<lambda>ys. Inr (y # ys)))"

definition text_elem :: "string \<Rightarrow> string \<Rightarrow> elem" where
  "text_elem t s = Elem t [] (Some s) []"

text \<open>\<^verbatim>\<open>s.replace('_', ' ')\<close>.\<close>

definition replace_underscores :: "string \<Rightarrow> string" where
  "replace_underscores s = map (\<lambda>c. if c = CHR ''_'' then CHR '' '' else c) s"

subsection \<open>The tail of both encoders\<close>

text \<open>
  Both functions end with
  \<^verbatim>\<open>xml_str = ET.tostring(root, encoding='unicode')\<close>,
  \<^verbatim>\<open>dom = minidom.parseString(xml_str)\<close>,
  \<^verbatim>\<open>pretty_xml = dom.toprettyxml(indent="    ")\<close>,
  \<^verbatim>\<open>lines = [line for line in pretty_xml.split('\n') if line.strip()]\<close> and
  \<^verbatim>\<open>return '\n'.join(lines)\<close>.
  The four library functions are parameters, gathered in a record: \<^verbatim>\<open>ET.tostring\<close>
  raises on a tag it cannot qualify (\<^verbatim>\<open>ValueError\<close> on \<^verbatim>\<open>{x\<close>),
  \<^verbatim>\<open>minidom.parseString\<close> raises \<^verbatim>\<open>ExpatError\<close> on a text that is not
  well-formed (a tag that is no XML name), and \<open>'d\<close> is the type of the document it
  returns. Splitting and joining are the source's own.
\<close>

record 'd xml_library =
  et_tostring :: "elem \<Rightarrow> py_error + string"
  parseString :: "string \<Rightarrow> py_error + 'd"
  toprettyxml :: "'d \<Rightarrow> string \<Rightarrow> string"
  str_strip :: "string \<Rightarrow> string"

text \<open>\<^verbatim>\<open>s.split(sep)\<close> for a separator of one character, and \<^verbatim>\<open>sep.join(ls)\<close>.\<close>

fun split_on :: "char \<Rightarrow> string \<Rightarrow> string list" where
  "split_on sep [] = [[]]"
| "split_on sep (c # cs) =
     (if c = sep then [] # split_on sep cs
      else (case split_on sep cs of [] \<Rightarrow> [[c]] | l # ls \<Rightarrow> (c # l) # ls))"

fun join_with :: "string \<Rightarrow> string list \<Rightarrow> string" where
  "join_with sep [] = []"
| "join_with sep [l] = l"
| "join_with sep (l # l' # ls) = l @ sep @ join_with sep (l' # ls)"

definition beautify_xml :: "'d xml_library \<Rightarrow> elem \<Rightarrow> py_error + string" where
  "beautify_xml xml root =
     and_then (et_tostring xml root) (\<lambda>xml_str.
     and_then (parseString xml xml_str) (\<lambda>dom.
       (let pretty_xml = toprettyxml xml dom ''    '';
            kept_lines = filter (\<lambda>line. str_strip xml line \<noteq> [])
                           (split_on (CHR 0x0A) pretty_xml)
        in Inr (join_with [CHR 0x0A] kept_lines))))"

subsection \<open>\<^verbatim>\<open>src/appv1.py\<close>, lines 805 to 960\<close>

text \<open>\<open>build_root_v1\<close> is the function up to line 952, where \<^verbatim>\<open>root\<close> is complete.\<close>

definition file_metadata :: "'n basic_info \<Rightarrow> elem list" where
  "file_metadata basic_info =
     [text_elem ''fileAuthor''
        (case bi_author basic_info of None \<Rightarrow> ''Unknown'' | Some a \<Rightarrow> a)]
     @ (if truthy_str (bi_doi basic_info)
        then [text_elem ''fileDOI'' (the (bi_doi basic_info))] else [])"

definition file_version :: elem where
  "file_version =
     Elem ''fileVersion'' [] None [text_elem ''major'' ''1'', text_elem ''minor'' ''0'']"

definition type_and_apparatus :: "'n basic_info \<Rightarrow> elem list" where
  "type_and_apparatus basic_info =
     [text_elem ''experimentType''
        (case bi_exp_type basic_info of None \<Rightarrow> [] | Some t \<Rightarrow> t),
      Elem ''apparatus'' [] None
        [text_elem ''kind'' (case bi_reactor basic_info of None \<Rightarrow> ''JSR'' | Some r \<Rightarrow> r)]]"

definition bibliography_link :: "('n \<Rightarrow> string) \<Rightarrow> ('n::zero) basic_info \<Rightarrow> elem list" where
  "bibliography_link pystr basic_info =
     (let ref = (case bi_reference basic_info of None \<Rightarrow> empty_reference | Some r \<Rightarrow> r)
      in if truthy_str (ref_author ref) \<and> truthy_str (ref_title ref) then
           [Elem ''bibliographyLink'' [] None
              ([Elem ''details'' [] None
                  ([text_elem ''author'' (the (ref_author ref)),
                    text_elem ''title'' (the (ref_title ref))]
                   @ (if truthy_str (ref_journal ref)
                      then [text_elem ''journal'' (the (ref_journal ref))] else [])
                   @ (if truthy_dval (ref_year ref)
                      then [text_elem ''year'' (str_of pystr (the (ref_year ref)))] else []))]
               @ (if truthy_str (ref_doi ref)
                  then [text_elem ''referenceDOI'' (the (ref_doi ref))] else []))]
         else [])"

text \<open>
  Temperature and pressure: the attribute dictionary reads \<^verbatim>\<open>['units']\<close> first, the
  next statement reads \<^verbatim>\<open>['value']\<close>.
\<close>

definition quantity_property ::
  "('n \<Rightarrow> string) \<Rightarrow> string \<Rightarrow> string \<Rightarrow> 'n quantity \<Rightarrow> py_error + elem" where
  "quantity_property pystr name label q =
     and_then (subscript ''units'' (q_units q)) (\<lambda>units.
     and_then (subscript ''value'' (q_value q)) (\<lambda>v.
       Inr (Elem ''property''
              [(''name'', name), (''label'', label), (''units'', units),
               (''sourcetype'', ''reported'')] None
              [text_elem ''value'' (str_of pystr v)])))"

definition optional_quantity ::
  "('n \<Rightarrow> string) \<Rightarrow> string \<Rightarrow> string \<Rightarrow> 'n quantity option \<Rightarrow> py_error + elem list" where
  "optional_quantity pystr name label q =
     (case q of
        None \<Rightarrow> Inr []
      | Some q \<Rightarrow> and_then (quantity_property pystr name label q) (\<lambda>e. Inr [e]))"

definition reported_property :: "string \<Rightarrow> string \<Rightarrow> elem" where
  "reported_property name v =
     Elem ''property'' [(''name'', replace_underscores name), (''sourcetype'', ''reported'')]
       None [text_elem ''value'' v]"

text \<open>\<^verbatim>\<open>if param_value and param_value > 0\<close>.\<close>

definition reactor_properties ::
  "('n \<Rightarrow> string) \<Rightarrow> (string \<times> ('n::{zero,ord})) list \<Rightarrow> elem list" where
  "reactor_properties pystr reactor_params =
     map (\<lambda>(param_name, param_value). reported_property param_name (pystr param_value))
       (filter (\<lambda>(param_name, param_value). param_value \<noteq> 0 \<and> param_value > 0)
          reactor_params)"

definition optional_properties :: "('n \<Rightarrow> string) \<Rightarrow> (string \<times> 'n dval) list \<Rightarrow> elem list" where
  "optional_properties pystr optional =
     map (\<lambda>(key, v). reported_property key (str_of pystr v))
       (filter (\<lambda>(key, v). key \<in> set [''equivalence_ratio'', ''fuel'', ''oxidizer'',
                                          ''diluent''])
          optional)"

text \<open>
  One \<^verbatim>\<open>component\<close>. In
  \<^verbatim>\<open>ET.SubElement(comp_elem, 'amount', attrib={'units': comp['units']}).text = str(comp['amount'])\<close>
  the right-hand side is evaluated first.
\<close>

definition optional_attr :: "string \<Rightarrow> string option \<Rightarrow> (string \<times> string) list" where
  "optional_attr k v = (case v of None \<Rightarrow> [] | Some s \<Rightarrow> [(k, s)])"

definition component_elem :: "('n \<Rightarrow> string) \<Rightarrow> 'n comp \<Rightarrow> py_error + elem" where
  "component_elem pystr comp_item =
     and_then (subscript ''species'' (c_species comp_item)) (\<lambda>species.
     and_then (subscript ''amount'' (c_amount comp_item)) (\<lambda>amount.
     and_then (subscript ''units'' (c_units comp_item)) (\<lambda>units.
       Inr (Elem ''component'' [] None
              [Elem ''speciesLink''
                 ([(''preferredKey'', species)]
                  @ optional_attr ''CAS'' (c_CAS comp_item)
                  @ optional_attr ''chemName'' (c_chemName comp_item)
                  @ optional_attr ''InChI'' (c_InChI comp_item)
                  @ optional_attr ''SMILES'' (c_SMILES comp_item)) None [],
               Elem ''amount'' [(''units'', units)] (Some (str_of pystr amount)) []]))))"

definition initial_composition :: "('n \<Rightarrow> string) \<Rightarrow> 'n conditions \<Rightarrow> py_error + elem list" where
  "initial_composition pystr conditions =
     (case cond_composition conditions of
        None \<Rightarrow> Inr []
      | Some composition \<Rightarrow>
          if composition = [] then Inr []
          else and_then (for_each (component_elem pystr) composition) (\<lambda>components.
                 Inr [Elem ''property''
                        [(''name'', ''initial composition''), (''sourcetype'', ''reported'')]
                        None components]))"

definition common_properties_elem ::
  "('n \<Rightarrow> string) \<Rightarrow> ('n::{zero,ord}) conditions \<Rightarrow> (string \<times> 'n dval) list
     \<Rightarrow> py_error + elem" where
  "common_properties_elem pystr conditions optional =
     and_then (optional_quantity pystr ''temperature'' ''T'' (cond_temperature conditions))
       (\<lambda>temp.
     and_then (optional_quantity pystr ''pressure'' ''P'' (cond_pressure conditions))
       (\<lambda>press.
     and_then (initial_composition pystr conditions) (\<lambda>comp_props.
       Inr (Elem ''commonProperties'' [] None
              (temp @ press
               @ reactor_properties pystr
                   (case cond_reactor_params conditions of None \<Rightarrow> [] | Some ps \<Rightarrow> ps)
               @ optional_properties pystr optional
               @ comp_props)))))"

text \<open>
  The species registry \<^verbatim>\<open>COMMON_SPECIES\<close> comes from \<^verbatim>\<open>utils.constants\<close>; it is
  the parameter \<open>common_species\<close>. \<^verbatim>\<open>species_attrib.update(species_info)\<close> is
  dictionary update, key by key.
\<close>

type_synonym species_registry = "(string \<times> (string \<times> string) list) list"

definition dict_update :: "(string \<times> string) list \<Rightarrow> (string \<times> string) list
     \<Rightarrow> (string \<times> string) list" where
  "dict_update d other = foldl (\<lambda>acc (k, v). AList.update k v acc) d other"

definition x_property :: "axis \<Rightarrow> py_error + elem" where
  "x_property x_info =
     and_then (subscript ''id'' (ax_id x_info)) (\<lambda>i.
     and_then (subscript ''name'' (ax_name x_info)) (\<lambda>name.
     and_then (subscript ''label'' (ax_label x_info)) (\<lambda>label.
     and_then (subscript ''unit'' (ax_unit x_info)) (\<lambda>unit.
       Inr (Elem ''property''
              [(''id'', i), (''name'', name), (''label'', label), (''units'', unit),
               (''sourcetype'', ''digitized'')] None [])))))"

definition y_property :: "species_registry \<Rightarrow> axis \<Rightarrow> py_error + elem" where
  "y_property common_species y_info =
     and_then (subscript ''id'' (ax_id y_info)) (\<lambda>i.
     and_then (subscript ''name'' (ax_name y_info)) (\<lambda>name.
     and_then (subscript ''unit'' (ax_unit y_info)) (\<lambda>unit.
       Inr (Elem ''property''
              [(''id'', i), (''name'', name),
               (''label'', (case ax_label y_info of None \<Rightarrow> name | Some l \<Rightarrow> l)),
               (''units'', unit), (''sourcetype'', ''digitized'')] None
              (if truthy_str (ax_species y_info) then
                 (case map_of common_species (the (ax_species y_info)) of
                    None \<Rightarrow> []
                  | Some species_info \<Rightarrow>
                      [Elem ''speciesLink''
                         (dict_update [(''preferredKey'', the (ax_species y_info))] species_info)
                         None []])
               else [])))))"

text \<open>
  One \<^verbatim>\<open>dataPoint\<close>: a child for the X value and one for each Y column whose name is
  a key of the row. The keys \<^verbatim>\<open>'id'\<close> and \<^verbatim>\<open>'name'\<close> of every axis have been read
  by the property loops before.
\<close>

definition axis_cell :: "('n \<Rightarrow> string) \<Rightarrow> 'n drow \<Rightarrow> axis \<Rightarrow> py_error + elem list" where
  "axis_cell pystr row info =
     and_then (subscript ''name'' (ax_name info)) (\<lambda>name.
       case map_of row name of
         None \<Rightarrow> Inr []
       | Some v \<Rightarrow>
           and_then (subscript ''id'' (ax_id info)) (\<lambda>i. Inr [text_elem i (str_of pystr v)]))"

definition data_point :: "('n \<Rightarrow> string) \<Rightarrow> axis \<Rightarrow> axis list \<Rightarrow> 'n drow \<Rightarrow> py_error + elem" where
  "data_point pystr x_info y_axes row =
     and_then (axis_cell pystr row x_info) (\<lambda>x.
     and_then (for_each (axis_cell pystr row) y_axes) (\<lambda>ys.
       Inr (Elem ''dataPoint'' [] None (x @ concat ys))))"

definition data_group_elem ::
  "('n \<Rightarrow> string) \<Rightarrow> species_registry \<Rightarrow> 'n dgroup \<Rightarrow> py_error + elem" where
  "data_group_elem pystr common_species dg =
     and_then (subscript ''id'' (g_id dg)) (\<lambda>i.
     and_then (subscript ''name'' (g_name dg)) (\<lambda>name.
     and_then (subscript ''x_axis'' (g_x_axis dg)) (\<lambda>x_info.
     and_then (x_property x_info) (\<lambda>x_prop.
     and_then (subscript ''y_axes'' (g_y_axes dg)) (\<lambda>y_axes.
     and_then (for_each (y_property common_species) y_axes) (\<lambda>y_props.
     and_then (for_each (data_point pystr x_info y_axes)
                 (case g_data dg of None \<Rightarrow> [] | Some rows \<Rightarrow> rows)) (\<lambda>points.
       Inr (Elem ''dataGroup'' [(''id'', i), (''label'', name)] None
              ([x_prop] @ y_props @ points)))))))))"

definition build_root_v1 ::
  "('n \<Rightarrow> string) \<Rightarrow> species_registry \<Rightarrow> ('n::{zero,ord}) draft \<Rightarrow> py_error + elem" where
  "build_root_v1 pystr common_species draft =
     (let basic_info =
            (case d_basic_info draft of None \<Rightarrow> empty_basic_info | Some b \<Rightarrow> b);
          conditions =
            (case d_conditions draft of None \<Rightarrow> empty_conditions | Some c \<Rightarrow> c)
      in and_then (common_properties_elem pystr conditions (d_optional_params draft))
           (\<lambda>common_props.
         and_then (for_each (data_group_elem pystr common_species) (d_data_groups draft))
           (\<lambda>groups.
           Inr (Elem ''experiment'' [] None
                  (file_metadata basic_info
                   @ [file_version]
                   @ type_and_apparatus basic_info
                   @ bibliography_link pystr basic_info
                   @ [common_props]
                   @ groups)))))"

definition create_enhanced_xml_v1 ::
  "'d xml_library \<Rightarrow> ('n \<Rightarrow> string) \<Rightarrow> species_registry \<Rightarrow> ('n::{zero,ord}) draft
     \<Rightarrow> py_error + string" where
  "create_enhanced_xml_v1 xml pystr common_species draft =
     and_then (build_root_v1 pystr common_species draft) (beautify_xml xml)"

subsection \<open>\<^verbatim>\<open>src/appv2.py\<close>, lines 808 to 878\<close>

text \<open>
  \<open>build_root_v2\<close> is the function up to line 870. It numbers the columns of a data group:
  \<^verbatim>\<open>f'x{i+1}'\<close> needs the decimal digits of a natural number.
\<close>

fun str_nat :: "nat \<Rightarrow> string" where
  "str_nat n =
     (if n < 10 then [char_of (48 + n)]
      else str_nat (n div 10) @ [char_of (48 + n mod 10)])"

declare str_nat.simps [simp del]

definition column_id :: "nat \<Rightarrow> string" where
  "column_id i = ''x'' @ str_nat (i + 1)"

definition file_metadata_v2 :: "'n basic_info \<Rightarrow> elem list" where
  "file_metadata_v2 basic_info =
     [text_elem ''fileAuthor''
        (case bi_author basic_info of None \<Rightarrow> ''Unknown'' | Some a \<Rightarrow> a)]
     @ (if truthy_str (bi_doi basic_info)
        then [text_elem ''fileDOI'' (the (bi_doi basic_info))] else [])
     @ [text_elem ''experimentType''
          (case bi_exp_type basic_info of None \<Rightarrow> [] | Some t \<Rightarrow> t),
        Elem ''apparatus'' [] None
          [text_elem ''kind''
             (case bi_reactor basic_info of None \<Rightarrow> ''JSR'' | Some r \<Rightarrow> r)]]"

definition quantity_property_v2 ::
  "('n \<Rightarrow> string) \<Rightarrow> string \<Rightarrow> 'n quantity option \<Rightarrow> py_error + elem list" where
  "quantity_property_v2 pystr name q =
     (case q of
        None \<Rightarrow> Inr []
      | Some q \<Rightarrow>
          and_then (subscript ''units'' (q_units q)) (\<lambda>units.
          and_then (subscript ''value'' (q_value q)) (\<lambda>v.
            Inr [Elem ''property'' [(''name'', name), (''units'', units)] None
                   [text_elem ''value'' (str_of pystr v)]])))"

definition component_elem_v2 :: "('n \<Rightarrow> string) \<Rightarrow> 'n comp \<Rightarrow> py_error + elem" where
  "component_elem_v2 pystr comp_item =
     and_then (subscript ''species'' (c_species comp_item)) (\<lambda>species.
     and_then (subscript ''amount'' (c_amount comp_item)) (\<lambda>amount.
     and_then (subscript ''units'' (c_units comp_item)) (\<lambda>units.
       Inr (Elem ''component'' [] None
              [Elem ''speciesLink''
                 ([(''preferredKey'', species)] @ optional_attr ''CAS'' (c_CAS comp_item))
                 None [],
               Elem ''amount'' [(''units'', units)] (Some (str_of pystr amount)) []]))))"

definition initial_composition_v2 ::
  "('n \<Rightarrow> string) \<Rightarrow> 'n conditions \<Rightarrow> py_error + elem list" where
  "initial_composition_v2 pystr conditions =
     (case cond_composition conditions of
        None \<Rightarrow> Inr []
      | Some composition \<Rightarrow>
          if composition = [] then Inr []
          else and_then (for_each (component_elem_v2 pystr) composition) (\<lambda>components.
                 Inr [Elem ''property'' [(''name'', ''initial composition'')] None
                        components]))"

definition data_point_v2 :: "('n \<Rightarrow> string) \<Rightarrow> string list \<Rightarrow> 'n drow \<Rightarrow> elem" where
  "data_point_v2 pystr columns row =
     Elem ''dataPoint'' [] None
       (concat (map (\<lambda>(i, col). case map_of row col of
                                   None \<Rightarrow> []
                                 | Some v \<Rightarrow> [text_elem (column_id i) (str_of pystr v)])
                  (enumerate 0 columns)))"

definition data_group_elem_v2 :: "('n \<Rightarrow> string) \<Rightarrow> 'n dgroup \<Rightarrow> py_error + elem" where
  "data_group_elem_v2 pystr dg =
     and_then (subscript ''id'' (g_id dg)) (\<lambda>i.
     and_then (subscript ''columns'' (g_columns dg)) (\<lambda>columns.
       Inr (Elem ''dataGroup'' [(''id'', i)] None
              (map (\<lambda>(i, col). Elem ''property'' [(''id'', column_id i), (''name'', col)]
                                 None [])
                 (enumerate 0 columns)
               @ map (data_point_v2 pystr columns)
                   (case g_data dg of None \<Rightarrow> [] | Some rows \<Rightarrow> rows)))))"

definition build_root_v2 :: "('n \<Rightarrow> string) \<Rightarrow> 'n draft \<Rightarrow> py_error + elem" where
  "build_root_v2 pystr draft =
     (let basic_info =
            (case d_basic_info draft of None \<Rightarrow> empty_basic_info | Some b \<Rightarrow> b);
          conditions =
            (case d_conditions draft of None \<Rightarrow> empty_conditions | Some c \<Rightarrow> c)
      in and_then (quantity_property_v2 pystr ''temperature'' (cond_temperature conditions))
           (\<lambda>temp.
         and_then (quantity_property_v2 pystr ''pressure'' (cond_pressure conditions))
           (\<lambda>press.
         and_then (initial_composition_v2 pystr conditions) (\<lambda>comp_props.
         and_then (for_each (data_group_elem_v2 pystr) (d_data_groups draft)) (\<lambda>groups.
           Inr (Elem ''experiment'' [] None
                  (file_metadata_v2 basic_info
                   @ [Elem ''commonProperties'' [] None (temp @ press @ comp_props)]
                   @ groups)))))))"

definition create_enhanced_xml_v2 ::
  "'d xml_library \<Rightarrow> ('n \<Rightarrow> string) \<Rightarrow> 'n draft \<Rightarrow> py_error + string" where
  "create_enhanced_xml_v2 xml pystr draft =
     and_then (build_root_v2 pystr draft) (beautify_xml xml)"

section \<open>Auxiliary notions for the statements\<close>

text \<open>
  What the loops of \<open>parse_datagroup\<close> compute, named: the property map after the
  declaration loop, the rows that survive the data-point loop, and the declared column
  names (each declaration resolved through the map) that occur in a row and do not begin
  with an underscore.
\<close>

definition declared_map :: "elem \<Rightarrow> property_map" where
  "declared_map dg = fst (property_loop (findall_elem dg ''property'') (Map.empty, [], []))"

definition surviving_rows :: "(string \<Rightarrow> 'n option) \<Rightarrow> elem \<Rightarrow> 'n row list" where
  "surviving_rows pf dg =
     filter (\<lambda>r. r \<noteq> [])
       (map (\<lambda>dp. child_loop pf (declared_map dg) (children dp) [])
          (findall_elem dg ''dataPoint''))"

definition kept_columns :: "(string \<Rightarrow> 'n option) \<Rightarrow> elem \<Rightarrow> string list" where
  "kept_columns pf dg =
     filter (\<lambda>c. (\<exists>r \<in> set (surviving_rows pf dg). c \<in> fst ` set r) \<and> \<not> startswith_underscore c)
       (map (\<lambda>p. pi_column_name (the (declared_map dg (pi_id (parse_property p)))))
          (findall_elem dg ''property''))"

text \<open>
  The column order as the specification words it: the declared columns that occur in a
  row, in declaration order, then the tags of the data-point fields that match no declared
  id, in first-seen order.
\<close>

definition claimed_column_order :: "(string \<Rightarrow> 'n option) \<Rightarrow> elem \<Rightarrow> string list" where
  "claimed_column_order pf dg =
     (let d = parse_datagroup pf dg;
          declared = filter (\<lambda>c. \<exists>r \<in> set (dg_datapoints d). c \<in> fst ` set r)
                       (map pi_column_name (dg_properties d));
          undeclared = add_keys []
                         (filter (\<lambda>t. Some t \<notin> set (map pi_id (dg_properties d)))
                            (map tag (concat (map children (findall_elem dg ''dataPoint'')))))
      in declared @ undeclared)"

section \<open>Example documents\<close>

text \<open>
  Python's \<^verbatim>\<open>float\<close> on the texts of the example documents: it accepts the
  numerals listed and rejects every other text that occurs in them.
\<close>

definition example_float :: "string \<Rightarrow> int option" where
  "example_float =
     map_of [(''300'', 300), (''350'', 350), (''1'', 1), (''2'', 2), (''3'', 3)]"

text \<open>A data group with three declared columns and two data points.\<close>

definition example_group :: elem where
  "example_group =
     Elem ''dataGroup'' [(''id'', ''dg1'')] None
       [Elem ''property'' [(''id'', ''x1''), (''name'', ''temperature''), (''label'', ''T''),
                           (''units'', ''K'')] None [],
        Elem ''property'' [(''id'', ''x2''), (''name'', ''methane''),
                           (''units'', ''mole_fraction'')] None
          [Elem ''speciesLink'' [(''preferredKey'', ''CH4'')] None []],
        Elem ''property'' [(''id'', ''x3''), (''name'', ''comment'')] None [],
        Elem ''dataPoint'' [] None
          [Elem ''x1'' [] (Some ''300'') [], Elem ''x2'' [] (Some ''1'') []],
        Elem ''dataPoint'' [] None
          [Elem ''x1'' [] (Some ''350'') [], Elem ''x3'' [] (Some ''late'') []]]"

text \<open>
  A data group whose first column name begins with an underscore and whose data point
  carries a field \<^verbatim>\<open>zz\<close> that no property declares.
\<close>

definition undeclared_field_group :: elem where
  "undeclared_field_group =
     Elem ''dataGroup'' [(''id'', ''dg1'')] None
       [Elem ''property'' [(''id'', ''x1''), (''label'', ''_a'')] None [],
        Elem ''property'' [(''id'', ''x2''), (''label'', ''b'')] None [],
        Elem ''dataPoint'' [] None
          [Elem ''x1'' [] (Some ''1'') [], Elem ''x2'' [] (Some ''2'') [],
           Elem ''zz'' [] (Some ''3'') []]]"

text \<open>A data group whose two data points have no fields.\<close>

definition empty_points_group :: elem where
  "empty_points_group =
     Elem ''dataGroup'' [(''id'', ''dg2'')] None
       [Elem ''property'' [(''id'', ''x1''), (''name'', ''temperature''), (''units'', ''K'')]
          None [],
        Elem ''dataPoint'' [] None [],
        Elem ''dataPoint'' [] None []]"



text \<open>
  Documents for the common properties. In the first the composition has a complete
  component, one without \<^verbatim>\<open>amount\<close> and one without \<^verbatim>\<open>speciesLink\<close>; in the
  second an amount text is not a number; in the third the composition property is not a
  direct child of \<^verbatim>\<open>commonProperties\<close>.
\<close>

definition complete_component :: elem where
  "complete_component =
     Elem ''component'' [] None
       [Elem ''speciesLink'' [(''preferredKey'', ''CH4'')] None [],
        Elem ''amount'' [(''units'', ''mole_fraction'')] (Some ''1'') []]"

definition component_without_amount :: elem where
  "component_without_amount =
     Elem ''component'' [] None [Elem ''speciesLink'' [(''preferredKey'', ''O2'')] None []]"

definition component_without_species :: elem where
  "component_without_species =
     Elem ''component'' [] None
       [Elem ''amount'' [(''units'', ''mole_fraction'')] (Some ''2'') []]"

definition composition_property :: elem where
  "composition_property =
     Elem ''property'' [(''name'', ''initial composition'')] (Some '' '')
       [complete_component, component_without_amount, component_without_species]"

definition temperature_property :: elem where
  "temperature_property =
     Elem ''property'' [(''name'', ''temperature''), (''label'', ''T''), (''units'', ''K'')]
       None [text_elem ''value'' ''300'']"

definition composition_document :: elem where
  "composition_document =
     Elem ''experiment'' [] None
       [Elem ''commonProperties'' [] None [composition_property, temperature_property]]"

definition unparsable_amount_document :: elem where
  "unparsable_amount_document =
     Elem ''experiment'' [] None
       [Elem ''commonProperties'' [] None
          [Elem ''property'' [(''name'', ''initial composition'')] None
             [Elem ''component'' [] None
                [Elem ''speciesLink'' [(''preferredKey'', ''CH4'')] None [],
                 Elem ''amount'' [(''units'', ''mole_fraction'')] (Some ''abc'') []]]]]"

definition nested_common_properties :: elem where
  "nested_common_properties =
     Elem ''commonProperties'' [] None
       [Elem ''conditions'' [] None
          [Elem ''property'' [(''name'', ''initial composition'')] None
             [complete_component]]]"

definition nested_composition_document :: elem where
  "nested_composition_document = Elem ''experiment'' [] None [nested_common_properties]"

text \<open>What \<open>composition_document\<close> decodes to.\<close>

definition composition_decoded :: "int common_properties" where
  "composition_decoded =
     [(''initial composition'', Scalar (PStr '' '') [] ''initial composition''),
      (''T'', Scalar (PFloat 300) ''K'' ''temperature''),
      (''initial_composition'',
       Composition [(''CH4'', \<lparr>ce_amount = PFloat 1, ce_units = ''mole_fraction''\<rparr>)])]"

text \<open>
  The keys that the encoders read with a subscript, \<^verbatim>\<open>d[k]\<close>, inside the entries of
  \<^verbatim>\<open>conditions\<close> and inside a data group. Every field of \<^verbatim>\<open>basic_info\<close> and
  every entry of \<^verbatim>\<open>conditions\<close> itself is read with \<^verbatim>\<open>get\<close> or after an
  \<^verbatim>\<open>in\<close> test, and is left unconstrained.
\<close>

definition basic_info_of :: "'n draft \<Rightarrow> 'n basic_info" where
  "basic_info_of draft =
     (case d_basic_info draft of None \<Rightarrow> empty_basic_info | Some b \<Rightarrow> b)"

definition conditions_of :: "'n draft \<Rightarrow> 'n conditions" where
  "conditions_of draft =
     (case d_conditions draft of None \<Rightarrow> empty_conditions | Some c \<Rightarrow> c)"

definition quantity_complete :: "'n quantity option \<Rightarrow> bool" where
  "quantity_complete q =
     (case q of None \<Rightarrow> True | Some q \<Rightarrow> q_units q \<noteq> None \<and> q_value q \<noteq> None)"

definition comp_complete :: "'n comp \<Rightarrow> bool" where
  "comp_complete c \<longleftrightarrow> c_species c \<noteq> None \<and> c_amount c \<noteq> None \<and> c_units c \<noteq> None"

definition entries_complete :: "'n conditions \<Rightarrow> bool" where
  "entries_complete conditions \<longleftrightarrow>
     quantity_complete (cond_temperature conditions)
     \<and> quantity_complete (cond_pressure conditions)
     \<and> (case cond_composition conditions of
          None \<Rightarrow> True
        | Some composition \<Rightarrow> list_all comp_complete composition)"

definition x_axis_complete :: "axis \<Rightarrow> bool" where
  "x_axis_complete a \<longleftrightarrow>
     ax_id a \<noteq> None \<and> ax_name a \<noteq> None \<and> ax_label a \<noteq> None \<and> ax_unit a \<noteq> None"

definition y_axis_complete :: "axis \<Rightarrow> bool" where
  "y_axis_complete a \<longleftrightarrow> ax_id a \<noteq> None \<and> ax_name a \<noteq> None \<and> ax_unit a \<noteq> None"

definition dgroup_complete_v1 :: "'n dgroup \<Rightarrow> bool" where
  "dgroup_complete_v1 dg \<longleftrightarrow>
     g_id dg \<noteq> None \<and> g_name dg \<noteq> None
     \<and> (case g_x_axis dg of None \<Rightarrow> False | Some x \<Rightarrow> x_axis_complete x)
     \<and> (case g_y_axes dg of None \<Rightarrow> False | Some ys \<Rightarrow> list_all y_axis_complete ys)"

definition dgroup_complete_v2 :: "'n dgroup \<Rightarrow> bool" where
  "dgroup_complete_v2 dg \<longleftrightarrow> g_id dg \<noteq> None \<and> g_columns dg \<noteq> None"

text \<open>
  A draft with an empty \<^verbatim>\<open>basic_info\<close>, a temperature as its only condition and no
  data group.
\<close>

definition sparse_draft :: "int draft" where
  "sparse_draft =
     \<lparr>d_basic_info = Some empty_basic_info,
      d_conditions =
        Some (empty_conditions
                \<lparr>cond_temperature := Some \<lparr>q_value = Some (DNum 300), q_units = Some ''K''\<rparr>\<rparr>),
      d_optional_params = [],
      d_data_groups = []\<rparr>"

text \<open>
  \<^verbatim>\<open>str\<close> on the numbers of the example drafts, where the integer \<open>300\<close> stands for
  the float \<^verbatim>\<open>300.0\<close>.
\<close>

definition example_str :: "int \<Rightarrow> string" where
  "example_str n = (if n = 300 then ''300.0'' else ''0.0'')"

text \<open>
  Three more composition properties that are direct children: one with a
  \<^verbatim>\<open>value\<close> child, one whose key a later property takes, one whose label is the
  reserved key \<^verbatim>\<open>initial_composition\<close>.
\<close>

definition value_child_document :: elem where
  "value_child_document =
     Elem ''experiment'' [] None
       [Elem ''commonProperties'' [] None
          [Elem ''property'' [(''name'', ''initial composition'')] (Some '' '')
             [text_elem ''value'' ''1'', complete_component]]]"

definition rebound_key_document :: elem where
  "rebound_key_document =
     Elem ''experiment'' [] None
       [Elem ''commonProperties'' [] None
          [Elem ''property'' [(''name'', ''initial composition''), (''label'', ''mix'')]
             (Some '' '') [complete_component],
           Elem ''property'' [(''name'', ''mixture''), (''label'', ''mix'')] None
             [text_elem ''value'' ''lean'']]]"

definition reserved_label_document :: elem where
  "reserved_label_document =
     Elem ''experiment'' [] None
       [Elem ''commonProperties'' [] None
          [Elem ''property''
             [(''name'', ''initial composition''), (''label'', ''initial_composition'')]
             (Some '' '') [complete_component]]]"

text \<open>
  The trees that the two encoders build from \<open>sparse_draft\<close>, and from a draft with a data
  group whose X axis has the id \<^verbatim>\<open>1abc\<close>, which is no XML name.
\<close>

definition sparse_root_v1 :: elem where
  "sparse_root_v1 =
     Elem ''experiment'' [] None
       [Elem ''fileAuthor'' [] (Some ''Unknown'') [],
        Elem ''fileVersion'' [] None
          [Elem ''major'' [] (Some ''1'') [], Elem ''minor'' [] (Some ''0'') []],
        Elem ''experimentType'' [] (Some []) [],
        Elem ''apparatus'' [] None [Elem ''kind'' [] (Some ''JSR'') []],
        Elem ''commonProperties'' [] None
          [Elem ''property''
             [(''name'', ''temperature''), (''label'', ''T''), (''units'', ''K''),
              (''sourcetype'', ''reported'')] None
             [Elem ''value'' [] (Some ''300.0'') []]]]"

definition sparse_root_v2 :: elem where
  "sparse_root_v2 =
     Elem ''experiment'' [] None
       [Elem ''fileAuthor'' [] (Some ''Unknown'') [],
        Elem ''experimentType'' [] (Some []) [],
        Elem ''apparatus'' [] None [Elem ''kind'' [] (Some ''JSR'') []],
        Elem ''commonProperties'' [] None
          [Elem ''property'' [(''name'', ''temperature''), (''units'', ''K'')] None
             [Elem ''value'' [] (Some ''300.0'') []]]]"

definition bad_id_draft :: "int draft" where
  "bad_id_draft =
     sparse_draft
       \<lparr>d_data_groups :=
          [\<lparr>g_id = Some ''dg1'', g_name = Some ''G'',
            g_x_axis = Some \<lparr>ax_id = Some ''1abc'', ax_name = Some ''Temperature'',
                              ax_label = Some ''T'', ax_unit = Some ''K'', ax_species = None\<rparr>,
            g_y_axes = Some [],
            g_columns = Some [''Temperature''],
            g_data = Some [[(''Temperature'', DNum 300)]]\<rparr>]\<rparr>"

definition bad_id_root_v1 :: elem where
  "bad_id_root_v1 =
     Elem ''experiment'' [] None
       (children sparse_root_v1
        @ [Elem ''dataGroup'' [(''id'', ''dg1''), (''label'', ''G'')] None
             [Elem ''property''
                [(''id'', ''1abc''), (''name'', ''Temperature''), (''label'', ''T''),
                 (''units'', ''K''), (''sourcetype'', ''digitized'')] None [],
              Elem ''dataPoint'' [] None [Elem ''1abc'' [] (Some ''300.0'') []]]])"

text \<open>
  The library on these trees, as CPython 3.11 answers: the serialisations by
  \<^verbatim>\<open>ET.tostring\<close>, the verdict of \<^verbatim>\<open>minidom.parseString\<close> on each (the parsed
  document is named by the tree it was written from), and the lines that
  \<^verbatim>\<open>toprettyxml\<close> writes, each followed by a newline. Outside the table the functions
  answer with an error or the empty text; the examples never ask there.
\<close>

definition sparse_xml_str_v1 :: string where
  \<open>sparse_xml_str_v1 =
     ''<experiment><fileAuthor>Unknown</fileAuthor><fileVersion><major>1</major>''
     @ ''<minor>0</minor></fileVersion><experimentType /><apparatus><kind>JSR</kind>''
     @ ''</apparatus><commonProperties><property name="temperature" label="T" units="K"''
     @ '' sourcetype="reported"><value>300.0</value></property></commonProperties>''
     @ ''</experiment>''\<close>

definition sparse_xml_str_v2 :: string where
  \<open>sparse_xml_str_v2 =
     ''<experiment><fileAuthor>Unknown</fileAuthor><experimentType /><apparatus>''
     @ ''<kind>JSR</kind></apparatus><commonProperties>''
     @ ''<property name="temperature" units="K"><value>300.0</value></property>''
     @ ''</commonProperties></experiment>''\<close>

definition bad_id_xml_str_v1 :: string where
  \<open>bad_id_xml_str_v1 =
     ''<experiment><fileAuthor>Unknown</fileAuthor><fileVersion><major>1</major>''
     @ ''<minor>0</minor></fileVersion><experimentType /><apparatus><kind>JSR</kind>''
     @ ''</apparatus><commonProperties><property name="temperature" label="T" units="K"''
     @ '' sourcetype="reported"><value>300.0</value></property></commonProperties>''
     @ ''<dataGroup id="dg1" label="G"><property id="1abc" name="Temperature" label="T"''
     @ '' units="K" sourcetype="digitized" /><dataPoint><1abc>300.0</1abc></dataPoint>''
     @ ''</dataGroup></experiment>''\<close>

definition sparse_lines_v1 :: "string list" where
  \<open>sparse_lines_v1 =
     [''<?xml version="1.0" ?>'',
      ''<experiment>'',
      ''    <fileAuthor>Unknown</fileAuthor>'',
      ''    <fileVersion>'',
      ''        <major>1</major>'',
      ''        <minor>0</minor>'',
      ''    </fileVersion>'',
      ''    <experimentType/>'',
      ''    <apparatus>'',
      ''        <kind>JSR</kind>'',
      ''    </apparatus>'',
      ''    <commonProperties>'',
      ''        <property name="temperature" label="T" units="K" sourcetype="reported">'',
      ''            <value>300.0</value>'',
      ''        </property>'',
      ''    </commonProperties>'',
      ''</experiment>'']\<close>

definition sparse_lines_v2 :: "string list" where
  \<open>sparse_lines_v2 =
     [''<?xml version="1.0" ?>'',
      ''<experiment>'',
      ''    <fileAuthor>Unknown</fileAuthor>'',
      ''    <experimentType/>'',
      ''    <apparatus>'',
      ''        <kind>JSR</kind>'',
      ''    </apparatus>'',
      ''    <commonProperties>'',
      ''        <property name="temperature" units="K">'',
      ''            <value>300.0</value>'',
      ''        </property>'',
      ''    </commonProperties>'',
      ''</experiment>'']\<close>

definition example_strip :: "string \<Rightarrow> string" where
  "example_strip s =
     rev (dropWhile (\<lambda>c. c = CHR '' '') (rev (dropWhile (\<lambda>c. c = CHR '' '') s)))"

definition example_xml :: "elem xml_library" where
  "example_xml =
     \<lparr>et_tostring = (\<lambda>root.
        case map_of [(sparse_root_v1, sparse_xml_str_v1), (sparse_root_v2, sparse_xml_str_v2),
                     (bad_id_root_v1, bad_id_xml_str_v1)] root of
          Some s \<Rightarrow> Inr s
        | None \<Rightarrow> Inl ValueError),
      parseString = (\<lambda>s.
        case map_of [(sparse_xml_str_v1, Inr sparse_root_v1),
                     (sparse_xml_str_v2, Inr sparse_root_v2),
                     (bad_id_xml_str_v1, Inl ExpatError)] s of
          Some r \<Rightarrow> r
        | None \<Rightarrow> Inl ExpatError),
      toprettyxml = (\<lambda>dom indent.
        case map_of [(sparse_root_v1, sparse_lines_v1), (sparse_root_v2, sparse_lines_v2)] dom of
          Some ls \<Rightarrow> concat (map (\<lambda>l. l @ [CHR 0x0A]) ls)
        | None \<Rightarrow> []),
      str_strip = example_strip\<rparr>"

text \<open>A draft with both dictionaries whose temperature entry has no \<^verbatim>\<open>'units'\<close>.\<close>

definition unitless_draft :: "int draft" where
  "unitless_draft =
     \<lparr>d_basic_info = Some empty_basic_info,
      d_conditions =
        Some (empty_conditions
                \<lparr>cond_temperature := Some \<lparr>q_value = Some (DNum 300), q_units = None\<rparr>\<rparr>),
      d_optional_params = [],
      d_data_groups = []\<rparr>"

section \<open>Verified properties\<close>

subsection \<open>Column names\<close>

lemma property_loop_lists:
  "snd (property_loop ps (m, co, pr)) =
     (co @ map (\<lambda>p. pi_id (parse_property p)) ps, pr @ map parse_property ps)"
  by (induction ps arbitrary: m co pr) (simp_all add: Let_def)

lemma property_loop_map:
  "fst (property_loop ps (m, co, pr)) =
     m ++ map_of (rev (map (\<lambda>p. (pi_id (parse_property p), parse_property p)) ps))"
  by (induction ps arbitrary: m co pr) (simp_all add: Let_def map_add_upd_left fun_eq_iff map_add_def split: option.splits)

lemma dg_properties_parse:
  "dg_properties (parse_datagroup pf dg) = map parse_property (findall_elem dg ''property'')"
proof -
  obtain m co pr where loop: "property_loop (findall_elem dg ''property'') (Map.empty, [], []) = (m, co, pr)"
    by (cases "property_loop (findall_elem dg ''property'') (Map.empty, [], [])") auto
  have "pr = map parse_property (findall_elem dg ''property'')"
    using property_loop_lists [of "findall_elem dg ''property''" Map.empty "[]" "[]"] loop by simp
  then show ?thesis
    by (simp add: parse_datagroup_def loop Let_def split: prod.splits)
qed

lemma column_name_rule:
  "pi_column_name (parse_property prop) =
     (case find_elem prop ''speciesLink'' of
        Some sl \<Rightarrow>
          get_attr_default sl ''preferredKey'' [] @ '' ('' @ get_attr_default prop ''units'' [] @ '')''
      | None \<Rightarrow>
          (let base = (if get_attr_default prop ''label'' [] \<noteq> []
                       then get_attr_default prop ''label'' []
                       else get_attr_default prop ''name'' []);
               units = get_attr_default prop ''units'' []
           in if units = [] then base else base @ '' ('' @ units @ '')''))"
  by (simp add: parse_property_def with_units_def Let_def split: option.splits)

text \<open>
  Claim C1. Every property declared in a data group gets its column name by the rule:
  with a \<^verbatim>\<open>speciesLink\<close> child it is the preferred key followed by the units in
  parentheses; without one it is the label when the label is not empty, else the name,
  followed by the units in parentheses unless the units are empty. The three instances
  of the specification follow.
\<close>

theorem column_name_derivation:
  "map pi_column_name (dg_properties (parse_datagroup pf dg)) =
     map (\<lambda>prop.
            case find_elem prop ''speciesLink'' of
              Some sl \<Rightarrow>
                get_attr_default sl ''preferredKey'' [] @ '' (''
                  @ get_attr_default prop ''units'' [] @ '')''
            | None \<Rightarrow>
                (let base = (if get_attr_default prop ''label'' [] \<noteq> []
                             then get_attr_default prop ''label'' []
                             else get_attr_default prop ''name'' []);
                     units = get_attr_default prop ''units'' []
                 in if units = [] then base else base @ '' ('' @ units @ '')''))
         (findall_elem dg ''property'')
   \<and> (\<forall>prop sl. find_elem prop ''speciesLink'' = Some sl
          \<and> get_attr sl ''preferredKey'' = Some ''CH4''
          \<and> get_attr prop ''units'' = Some ''mole_fraction''
        \<longrightarrow> pi_column_name (parse_property prop) = ''CH4 (mole_fraction)'')
   \<and> (\<forall>prop. find_elem prop ''speciesLink'' = None
          \<and> get_attr prop ''label'' = Some ''T''
          \<and> get_attr prop ''units'' = Some ''K''
        \<longrightarrow> pi_column_name (parse_property prop) = ''T (K)'')
   \<and> (\<forall>prop. find_elem prop ''speciesLink'' = None
          \<and> get_attr prop ''label'' \<in> {None, Some []}
          \<and> get_attr prop ''units'' \<in> {None, Some []}
        \<longrightarrow> pi_column_name (parse_property prop) = get_attr_default prop ''name'' [])"
proof (intro conjI allI impI)
  show "map pi_column_name (dg_properties (parse_datagroup pf dg)) =
     map (\<lambda>prop.
            case find_elem prop ''speciesLink'' of
              Some sl \<Rightarrow>
                get_attr_default sl ''preferredKey'' [] @ '' (''
                  @ get_attr_default prop ''units'' [] @ '')''
            | None \<Rightarrow>
                (let base = (if get_attr_default prop ''label'' [] \<noteq> []
                             then get_attr_default prop ''label'' []
                             else get_attr_default prop ''name'' []);
                     units = get_attr_default prop ''units'' []
                 in if units = [] then base else base @ '' ('' @ units @ '')''))
         (findall_elem dg ''property'')"
    by (simp add: dg_properties_parse column_name_rule)
next
  fix p sl
  assume "find_elem p ''speciesLink'' = Some sl
          \<and> get_attr sl ''preferredKey'' = Some ''CH4''
          \<and> get_attr p ''units'' = Some ''mole_fraction''"
  then show "pi_column_name (parse_property p) = ''CH4 (mole_fraction)''"
    by (simp add: column_name_rule get_attr_def get_attr_default_def)
next
  fix p
  assume "find_elem p ''speciesLink'' = None
          \<and> get_attr p ''label'' = Some ''T''
          \<and> get_attr p ''units'' = Some ''K''"
  then show "pi_column_name (parse_property p) = ''T (K)''"
    by (simp add: column_name_rule get_attr_def get_attr_default_def)
next
  fix p
  assume "find_elem p ''speciesLink'' = None
          \<and> get_attr p ''label'' \<in> {None, Some []}
          \<and> get_attr p ''units'' \<in> {None, Some []}"
  then show "pi_column_name (parse_property p) = get_attr_default p ''name'' []"
    by (auto simp add: column_name_rule get_attr_def get_attr_default_def)
qed

theorem column_name_derivation_witness:
  "map pi_column_name (dg_properties (parse_datagroup example_float example_group))
     = [''T (K)'', ''CH4 (mole_fraction)'', ''comment'']
   \<and> pi_column_name (parse_property (children example_group ! 1)) = ''CH4 (mole_fraction)''
   \<and> pi_column_name (parse_property (children example_group ! 0)) = ''T (K)''
   \<and> pi_column_name (parse_property (children example_group ! 2)) = ''comment''"
proof -
  note main = column_name_derivation [of example_float example_group]
  have a: "find_elem (children example_group ! 1) ''speciesLink'' = Some (Elem ''speciesLink'' [(''preferredKey'', ''CH4'')] None [])
          \<and> get_attr (Elem ''speciesLink'' [(''preferredKey'', ''CH4'')] None []) ''preferredKey'' = Some ''CH4''
          \<and> get_attr (children example_group ! 1) ''units'' = Some ''mole_fraction''"
    by (simp add: example_group_def find_elem_def findall_elem_def get_attr_def)
  have b: "find_elem (children example_group ! 0) ''speciesLink'' = None
          \<and> get_attr (children example_group ! 0) ''label'' = Some ''T''
          \<and> get_attr (children example_group ! 0) ''units'' = Some ''K''"
    by (simp add: example_group_def find_elem_def findall_elem_def get_attr_def)
  have c: "find_elem (children example_group ! 2) ''speciesLink'' = None
          \<and> get_attr (children example_group ! 2) ''label'' \<in> {None, Some []}
          \<and> get_attr (children example_group ! 2) ''units'' \<in> {None, Some []}"
    by (simp add: example_group_def find_elem_def findall_elem_def get_attr_def)
  have n: "get_attr_default (children example_group ! 2) ''name'' [] = ''comment''"
    by (simp add: example_group_def get_attr_default_def)
  have l: "map (\<lambda>prop.
            case find_elem prop ''speciesLink'' of
              Some sl \<Rightarrow>
                get_attr_default sl ''preferredKey'' [] @ '' (''
                  @ get_attr_default prop ''units'' [] @ '')''
            | None \<Rightarrow>
                (let base = (if get_attr_default prop ''label'' [] \<noteq> []
                             then get_attr_default prop ''label'' []
                             else get_attr_default prop ''name'' []);
                     units = get_attr_default prop ''units'' []
                 in if units = [] then base else base @ '' ('' @ units @ '')''))
         (findall_elem example_group ''property'') = [''T (K)'', ''CH4 (mole_fraction)'', ''comment'']"
    by (simp add: example_group_def find_elem_def findall_elem_def get_attr_default_def)
  have r1: "map pi_column_name
              (dg_properties (parse_datagroup example_float example_group))
            = [''T (K)'', ''CH4 (mole_fraction)'', ''comment'']"
    by (simp only: main [THEN conjunct1] l)
  have r2: "pi_column_name (parse_property (children example_group ! 1)) = ''CH4 (mole_fraction)''"
    by (rule main [THEN conjunct2, THEN conjunct1, rule_format, OF a])
  have r3: "pi_column_name (parse_property (children example_group ! 0)) = ''T (K)''"
    by (rule main [THEN conjunct2, THEN conjunct2, THEN conjunct1, rule_format, OF b])
  have r4: "pi_column_name (parse_property (children example_group ! 2)) = ''comment''"
    by (simp only: main [THEN conjunct2, THEN conjunct2, THEN conjunct2, rule_format, OF c] n)
  from r1 r2 r3 r4 show ?thesis by blast
qed

subsection \<open>The loops of a data group\<close>

lemma property_loop_dom:
  "dom (fst (property_loop ps (Map.empty, [], []))) = set (map (\<lambda>p. pi_id (parse_property p)) ps)"
  by (simp add: property_loop_map dom_map_of_conv_image_fst image_image)

lemma property_loop_range:
  assumes "fst (property_loop ps (Map.empty, [], [])) i = Some info"
  shows "info \<in> parse_property ` set ps"
proof -
  from assms have "map_of (rev (map (\<lambda>p. (pi_id (parse_property p), parse_property p)) ps)) i = Some info"
    by (simp add: property_loop_map)
  then have "(i, info) \<in> set (rev (map (\<lambda>p. (pi_id (parse_property p), parse_property p)) ps))"
    by (rule map_of_SomeD)
  then show ?thesis by auto
qed

lemma child_loop_keys:
  "fst ` set (child_loop pf m cs pd) =
     fst ` set pd \<union> {pi_column_name info | info c. c \<in> set cs \<and> m (Some (tag c)) = Some info}"
proof (induction cs arbitrary: pd)
  case Nil
  then show ?case by simp
next
  case (Cons c cs)
  show ?case
  proof (cases "m (Some (tag c))")
    case None
    then show ?thesis using Cons.IH [of pd] by auto
  next
    case (Some info)
    then show ?thesis
      using Cons.IH [of "AList.update (pi_column_name info) (coerce pf (etext c)) pd"]
      by (auto simp add: AList.dom_update)
  qed
qed

lemma child_loop_skips_undeclared:
  "child_loop pf m cs pd = child_loop pf m (filter (\<lambda>c. m (Some (tag c)) \<noteq> None) cs) pd"
  by (induction cs arbitrary: pd) (auto split: option.splits)

lemma datapoint_loop_rows:
  "datapoint_loop pf m dps (a, b) =
     (a @ filter (\<lambda>r. r \<noteq> []) (map (\<lambda>dp. child_loop pf m (children dp) []) dps),
      b @ filter (\<lambda>r. r \<noteq> []) (map (\<lambda>dp. child_loop pf m (children dp) []) dps))"
  by (induction dps arbitrary: a b) (simp_all add: Let_def)

lemma add_keys_set: "set (add_keys acc ks) = set acc \<union> set ks"
  by (induction ks arbitrary: acc) auto

lemma union_keys_set: "set (union_keys acc rows) = set acc \<union> (\<Union>r \<in> set rows. fst ` set r)"
  by (induction rows arbitrary: acc) (auto simp add: add_keys_set)

lemma declared_loop_filter:
  "set ids \<subseteq> dom m \<Longrightarrow>
   declared_loop m display ids acc =
     acc @ filter (\<lambda>c. c \<in> set display) (map (\<lambda>i. pi_column_name (the (m i))) ids)"
  by (induction ids arbitrary: acc) (auto split: option.splits)

lemma remaining_loop_covered:
  "set cols \<subseteq> set acc \<Longrightarrow> remaining_loop cols acc = acc"
  by (induction cols arbitrary: acc) auto

lemma df_select_columns: "df_columns (df_select cols df) = cols"
  by (simp add: df_select_def)

lemma df_select_rows: "length (df_cells (df_select cols df)) = length (df_cells df)"
  by (simp add: df_select_def)

lemma DataFrame_columns: "df_columns (DataFrame rows) = union_keys [] rows"
  by (simp add: DataFrame_def Let_def)

lemma DataFrame_rows: "length (df_cells (DataFrame rows)) = length rows"
  by (simp add: DataFrame_def Let_def)

lemma property_loop_split:
  "property_loop ps (Map.empty, [], []) =
     (fst (property_loop ps (Map.empty, [], [])),
      map (\<lambda>p. pi_id (parse_property p)) ps, map parse_property ps)"
  using property_loop_lists [of ps Map.empty "[]" "[]"]
  by (cases "property_loop ps (Map.empty, [], [])") simp

lemma ordered_columns_kept:
  "remaining_loop (filter (\<lambda>col. \<not> startswith_underscore col) (union_keys [] (surviving_rows pf dg)))
     (declared_loop (declared_map dg)
        (filter (\<lambda>col. \<not> startswith_underscore col) (union_keys [] (surviving_rows pf dg)))
        (map (\<lambda>p. pi_id (parse_property p)) (findall_elem dg ''property'')) [])
   = kept_columns pf dg"
proof -
  let ?ps = "findall_elem dg ''property''"
  let ?m = "declared_map dg"
  let ?ids = "map (\<lambda>p. pi_id (parse_property p)) ?ps"
  let ?display = "filter (\<lambda>col. \<not> startswith_underscore col) (union_keys [] (surviving_rows pf dg))"
  have dom: "dom ?m = set ?ids"
    unfolding declared_map_def by (rule property_loop_dom)
  have decl: "declared_loop ?m ?display ?ids [] =
                filter (\<lambda>c. c \<in> set ?display) (map (\<lambda>i. pi_column_name (the (?m i))) ?ids)"
    using declared_loop_filter [of ?ids ?m ?display "[]"] dom by simp
  have disp: "set ?display = {c. (\<exists>r \<in> set (surviving_rows pf dg). c \<in> fst ` set r) \<and> \<not> startswith_underscore c}"
    by (auto simp add: union_keys_set)
  have kept: "filter (\<lambda>c. c \<in> set ?display) (map (\<lambda>i. pi_column_name (the (?m i))) ?ids) = kept_columns pf dg"
    unfolding kept_columns_def disp by (simp add: comp_def)
  have cover: "set ?display \<subseteq> set (kept_columns pf dg)"
  proof
    fix c assume c: "c \<in> set ?display"
    then have "c \<in> {c. (\<exists>r \<in> set (surviving_rows pf dg). c \<in> fst ` set r) \<and> \<not> startswith_underscore c}"
      unfolding disp .
    then obtain r where r: "r \<in> set (surviving_rows pf dg)" "c \<in> fst ` set r"
      by blast
    from r(1) obtain dp where "r = child_loop pf ?m (children dp) []"
      unfolding surviving_rows_def by auto
    with r(2) obtain info ch where ch: "?m (Some (tag ch)) = Some info" "c = pi_column_name info"
      using child_loop_keys [of pf ?m "children dp" "[]"] by auto
    from ch(1) have "Some (tag ch) \<in> set ?ids" using dom by auto
    with ch have "c \<in> set (map (\<lambda>i. pi_column_name (the (?m i))) ?ids)"
      by force
    with c show "c \<in> set (kept_columns pf dg)"
      unfolding kept [symmetric] by simp
  qed
  show ?thesis
    unfolding decl kept using cover by (rule remaining_loop_covered)
qed

lemma parse_datagroup_fields:
  "dg_properties (parse_datagroup pf dg) = map parse_property (findall_elem dg ''property'')"
  "dg_property_map (parse_datagroup pf dg) = declared_map dg"
  "dg_datapoints (parse_datagroup pf dg) = surviving_rows pf dg"
  "dg_data_df (parse_datagroup pf dg) =
     (if surviving_rows pf dg = [] then None
      else Some (if kept_columns pf dg \<noteq> []
                 then df_select (kept_columns pf dg) (DataFrame (surviving_rows pf dg))
                 else DataFrame (surviving_rows pf dg)))"
  "dg_statistics (parse_datagroup pf dg) =
     (case dg_data_df (parse_datagroup pf dg) of
        None \<Rightarrow> None
      | Some df \<Rightarrow> Some \<lparr>st_num_points = length (df_cells df), st_columns = df_columns df,
                         st_shape = (length (df_cells df), length (df_columns df))\<rparr>)"
  using ordered_columns_kept [of pf dg]
  unfolding parse_datagroup_def
  by (subst property_loop_split,
      simp add: datapoint_loop_rows Let_def DataFrame_columns
        declared_map_def [symmetric] surviving_rows_def [symmetric])+

subsection \<open>Tables and statistics\<close>

text \<open>
  The names handed to \<open>df_select\<close> are columns of the frame, so the \<^verbatim>\<open>KeyError\<close>
  of pandas cannot occur; and the decoded groups are the descendants with tag
  \<^verbatim>\<open>dataGroup\<close>, each decoded on its own.
\<close>

lemma kept_columns_in_frame:
  "set (kept_columns pf dg) \<subseteq> set (df_columns (DataFrame (surviving_rows pf dg)))"
  by (auto simp add: kept_columns_def DataFrame_columns union_keys_set)

lemma parse_datagroups_member:
  "d \<in> set (parse_datagroups pf root) \<longleftrightarrow>
     (\<exists>dg \<in> set (findall_desc root ''dataGroup''). d = parse_datagroup pf dg)"
  by (auto simp add: parse_datagroups_def)

lemma declared_map_distinct:
  assumes "distinct (map (\<lambda>p. pi_id (parse_property p)) (findall_elem dg ''property''))"
    and "p \<in> set (findall_elem dg ''property'')"
  shows "declared_map dg (pi_id (parse_property p)) = Some (parse_property p)"
proof -
  let ?xs = "map (\<lambda>p. (pi_id (parse_property p), parse_property p)) (findall_elem dg ''property'')"
  have "distinct (map fst (rev ?xs))"
    using assms(1) by (simp add: comp_def rev_map [symmetric])
  moreover have "(pi_id (parse_property p), parse_property p) \<in> set (rev ?xs)"
    using assms(2) by auto
  ultimately have "map_of (rev ?xs) (pi_id (parse_property p)) = Some (parse_property p)"
    by (rule map_of_is_SomeI)
  then show ?thesis
    by (simp add: declared_map_def property_loop_map)
qed

lemma kept_columns_declared:
  "set (kept_columns pf dg) \<subseteq> pi_column_name ` parse_property ` set (findall_elem dg ''property'')"
proof
  fix c assume "c \<in> set (kept_columns pf dg)"
  then obtain p where p: "p \<in> set (findall_elem dg ''property'')"
      "c = pi_column_name (the (declared_map dg (pi_id (parse_property p))))"
    unfolding kept_columns_def by auto
  have "pi_id (parse_property p) \<in> dom (declared_map dg)"
    unfolding declared_map_def property_loop_dom using p(1) by simp
  then obtain info where info: "declared_map dg (pi_id (parse_property p)) = Some info"
    by auto
  then have "info \<in> parse_property ` set (findall_elem dg ''property'')"
    unfolding declared_map_def by (rule property_loop_range)
  with p(2) info show "c \<in> pi_column_name ` parse_property ` set (findall_elem dg ''property'')"
    by simp
qed

lemma row_keys_declared:
  assumes "r \<in> set (surviving_rows pf dg)" and "c \<in> fst ` set r"
  shows "c \<in> pi_column_name ` parse_property ` set (findall_elem dg ''property'')"
proof -
  from assms(1) obtain dp where "r = child_loop pf (declared_map dg) (children dp) []"
    unfolding surviving_rows_def by auto
  with assms(2) obtain info ch where ch: "declared_map dg (Some (tag ch)) = Some info"
      "c = pi_column_name info"
    using child_loop_keys [of pf "declared_map dg" "children dp" "[]"] by auto
  from ch(1) have "info \<in> parse_property ` set (findall_elem dg ''property'')"
    unfolding declared_map_def by (rule property_loop_range)
  with ch(2) show ?thesis by simp
qed

text \<open>
  Claim C2, amended. When a data group has a surviving row, the column order of its table
  is the list of declared properties in declaration order (each resolved through its id,
  which changes nothing when the ids are distinct), restricted to the column names that
  occur in at least one row and do not begin with an underscore; when no such column is
  left the table keeps the keys of the rows in first-seen order. A data-point field whose
  tag matches no declared property id gives no column: every column of the table is the
  column name of a declared property.
\<close>

theorem table_column_order:
  assumes "dg_data_df (parse_datagroup pf dg) = Some df"
  shows "df_columns df =
           (let d = parse_datagroup pf dg;
                declared = map (\<lambda>p. pi_column_name (the (dg_property_map d (pi_id p))))
                             (dg_properties d);
                kept = filter (\<lambda>c. (\<exists>r \<in> set (dg_datapoints d). c \<in> fst ` set r)
                                     \<and> \<not> startswith_underscore c) declared
            in if kept \<noteq> [] then kept else union_keys [] (dg_datapoints d))
         \<and> set (df_columns df) \<subseteq> pi_column_name ` set (dg_properties (parse_datagroup pf dg))
         \<and> (distinct (map pi_id (dg_properties (parse_datagroup pf dg))) \<longrightarrow>
              map (\<lambda>p. pi_column_name (the (dg_property_map (parse_datagroup pf dg) (pi_id p))))
                (dg_properties (parse_datagroup pf dg))
              = map pi_column_name (dg_properties (parse_datagroup pf dg)))"
proof (intro conjI impI)
  have kept: "filter (\<lambda>c. (\<exists>r \<in> set (surviving_rows pf dg). c \<in> fst ` set r)
                                     \<and> \<not> startswith_underscore c)
                (map (\<lambda>p. pi_column_name (the (declared_map dg (pi_id p))))
                   (map parse_property (findall_elem dg ''property'')))
              = kept_columns pf dg"
    by (simp add: kept_columns_def comp_def)
  from assms have rows: "surviving_rows pf dg \<noteq> []"
    by (simp add: parse_datagroup_fields split: if_splits)
  from assms rows have df: "df = (if kept_columns pf dg \<noteq> []
                 then df_select (kept_columns pf dg) (DataFrame (surviving_rows pf dg))
                 else DataFrame (surviving_rows pf dg))"
    by (simp add: parse_datagroup_fields)
  then have cols: "df_columns df = (if kept_columns pf dg \<noteq> [] then kept_columns pf dg
                                    else union_keys [] (surviving_rows pf dg))"
    by (simp add: df_select_columns DataFrame_columns)
  show "df_columns df =
           (let d = parse_datagroup pf dg;
                declared = map (\<lambda>p. pi_column_name (the (dg_property_map d (pi_id p))))
                             (dg_properties d);
                kept = filter (\<lambda>c. (\<exists>r \<in> set (dg_datapoints d). c \<in> fst ` set r)
                                     \<and> \<not> startswith_underscore c) declared
            in if kept \<noteq> [] then kept else union_keys [] (dg_datapoints d))"
    unfolding Let_def parse_datagroup_fields kept using cols by simp
  show "set (df_columns df) \<subseteq> pi_column_name ` set (dg_properties (parse_datagroup pf dg))"
  proof (cases "kept_columns pf dg \<noteq> []")
    case True
    then show ?thesis
      using cols kept_columns_declared [of pf dg]
      by (simp add: parse_datagroup_fields image_image)
  next
    case False
    then have eq: "set (df_columns df) = (\<Union>r \<in> set (surviving_rows pf dg). fst ` set r)"
      using cols by (simp add: union_keys_set)
    show ?thesis
    proof
      fix c assume "c \<in> set (df_columns df)"
      with eq obtain r where "r \<in> set (surviving_rows pf dg)" "c \<in> fst ` set r"
        by blast
      then have "c \<in> pi_column_name ` parse_property ` set (findall_elem dg ''property'')"
        by (rule row_keys_declared)
      then show "c \<in> pi_column_name ` set (dg_properties (parse_datagroup pf dg))"
        by (simp add: parse_datagroup_fields(1))
    qed
  qed
next
  assume "distinct (map pi_id (dg_properties (parse_datagroup pf dg)))"
  then have d: "distinct (map (\<lambda>p. pi_id (parse_property p)) (findall_elem dg ''property''))"
    by (simp add: parse_datagroup_fields comp_def)
  show "map (\<lambda>p. pi_column_name (the (dg_property_map (parse_datagroup pf dg) (pi_id p))))
                (dg_properties (parse_datagroup pf dg))
              = map pi_column_name (dg_properties (parse_datagroup pf dg))"
    using declared_map_distinct [OF d]
    by (simp add: parse_datagroup_fields)
qed

text \<open>
  Claim C5. When the statistics of a decoded data group are present, the number of rows
  equals \<open>num_points\<close>, and the columns of the statistics are the columns of the table,
  in the same order.
\<close>

theorem statistics_match_table:
  assumes "dg_statistics (parse_datagroup pf dg) = Some st"
  shows "length (dg_datapoints (parse_datagroup pf dg)) = st_num_points st
         \<and> (\<exists>df. dg_data_df (parse_datagroup pf dg) = Some df
                 \<and> st_columns st = df_columns df
                 \<and> length (df_cells df) = st_num_points st)"
proof -
  from assms obtain df where df: "dg_data_df (parse_datagroup pf dg) = Some df"
      and st: "st = \<lparr>st_num_points = length (df_cells df), st_columns = df_columns df,
                      st_shape = (length (df_cells df), length (df_columns df))\<rparr>"
    by (auto simp add: parse_datagroup_fields(5) split: option.splits)
  from df have "length (df_cells df) = length (surviving_rows pf dg)"
    by (auto simp add: parse_datagroup_fields(4) df_select_rows DataFrame_rows split: if_splits)
  with df st show ?thesis
    by (simp add: parse_datagroup_fields(3))
qed

text \<open>
  Claim C6. A data group whose data points are all empty has no surviving row, and a data
  group with no surviving row has no table and no statistics entry, while its property
  descriptors are those of the declarations, in order.
\<close>

theorem empty_group_has_no_table:
  "((\<forall>dp \<in> set (findall_elem dg ''dataPoint''). children dp = [])
      \<longrightarrow> dg_datapoints (parse_datagroup pf dg) = [])
   \<and> (dg_datapoints (parse_datagroup pf dg) = []
      \<longrightarrow> dg_data_df (parse_datagroup pf dg) = None
        \<and> dg_statistics (parse_datagroup pf dg) = None
        \<and> dg_properties (parse_datagroup pf dg)
            = map parse_property (findall_elem dg ''property''))"
proof (intro conjI impI)
  assume "\<forall>dp \<in> set (findall_elem dg ''dataPoint''). children dp = []"
  then show "dg_datapoints (parse_datagroup pf dg) = []"
    by (simp add: parse_datagroup_fields(3) surviving_rows_def filter_empty_conv)
next
  assume e: "dg_datapoints (parse_datagroup pf dg) = []"
  then have rows: "surviving_rows pf dg = []"
    by (simp add: parse_datagroup_fields(3))
  then show "dg_data_df (parse_datagroup pf dg) = None"
    by (simp add: parse_datagroup_fields(4))
  then show "dg_statistics (parse_datagroup pf dg) = None"
    by (simp add: parse_datagroup_fields(5))
  show "dg_properties (parse_datagroup pf dg) = map parse_property (findall_elem dg ''property'')"
    by (rule parse_datagroup_fields(1))
qed

subsection \<open>Tables and statistics on the example documents\<close>

theorem table_column_order_witness:
  "dg_data_df (parse_datagroup example_float example_group) =
     Some \<lparr>df_columns = [''T (K)'', ''CH4 (mole_fraction)'', ''comment''],
           df_cells = [[Some (PFloat 300), Some (PFloat 1), None],
                       [Some (PFloat 350), None, Some (PStr ''late'')]]\<rparr>
   \<and> set (df_columns \<lparr>df_columns = [''T (K)'', ''CH4 (mole_fraction)'', ''comment''],
           df_cells = [[Some (PFloat (300 :: int)), Some (PFloat 1), None],
                       [Some (PFloat 350), None, Some (PStr ''late'')]]\<rparr>)
         \<subseteq> pi_column_name ` set (dg_properties (parse_datagroup example_float example_group))
   \<and> distinct (map pi_id (dg_properties (parse_datagroup example_float example_group)))
   \<and> map (\<lambda>p. pi_column_name
                 (the (dg_property_map (parse_datagroup example_float example_group) (pi_id p))))
        (dg_properties (parse_datagroup example_float example_group))
      = map pi_column_name (dg_properties (parse_datagroup example_float example_group))"
proof -
  have h: "dg_data_df (parse_datagroup example_float example_group) =
     Some \<lparr>df_columns = [''T (K)'', ''CH4 (mole_fraction)'', ''comment''],
           df_cells = [[Some (PFloat 300), Some (PFloat 1), None],
                       [Some (PFloat 350), None, Some (PStr ''late'')]]\<rparr>"
    by code_simp
  have d: "distinct (map pi_id (dg_properties (parse_datagroup example_float example_group)))"
    by code_simp
  note main = table_column_order [OF h]
  have s: "set (df_columns \<lparr>df_columns = [''T (K)'', ''CH4 (mole_fraction)'', ''comment''],
           df_cells = [[Some (PFloat (300 :: int)), Some (PFloat 1), None],
                       [Some (PFloat 350), None, Some (PStr ''late'')]]\<rparr>)
         \<subseteq> pi_column_name ` set (dg_properties (parse_datagroup example_float example_group))"
    by (rule main [THEN conjunct2, THEN conjunct1])
  have m: "map (\<lambda>p. pi_column_name
                 (the (dg_property_map (parse_datagroup example_float example_group) (pi_id p))))
        (dg_properties (parse_datagroup example_float example_group))
      = map pi_column_name (dg_properties (parse_datagroup example_float example_group))"
    by (rule main [THEN conjunct2, THEN conjunct2, rule_format, OF d])
  from h s d m show ?thesis by blast
qed

text \<open>
  The column order as claim C2 words it fails on \<open>undeclared_field_group\<close>: the table has
  the single column \<^verbatim>\<open>b\<close>, neither the underscore column nor the undeclared field.
\<close>

theorem table_column_order_counterexample:
  "dg_data_df (parse_datagroup example_float undeclared_field_group) =
     Some \<lparr>df_columns = [''b''], df_cells = [[Some (PFloat 2)]]\<rparr>
   \<and> claimed_column_order example_float undeclared_field_group = [''_a'', ''b'', ''zz'']
   \<and> df_columns (the (dg_data_df (parse_datagroup example_float undeclared_field_group)))
       \<noteq> claimed_column_order example_float undeclared_field_group"
  by code_simp

theorem statistics_match_table_witness:
  "dg_statistics (parse_datagroup example_float example_group) =
     Some \<lparr>st_num_points = 2, st_columns = [''T (K)'', ''CH4 (mole_fraction)'', ''comment''],
           st_shape = (2, 3)\<rparr>
   \<and> length (dg_datapoints (parse_datagroup example_float example_group)) = 2
   \<and> (\<exists>df. dg_data_df (parse_datagroup example_float example_group) = Some df
           \<and> df_columns df = [''T (K)'', ''CH4 (mole_fraction)'', ''comment'']
           \<and> length (df_cells df) = 2)"
proof -
  have h: "dg_statistics (parse_datagroup example_float example_group) =
     Some \<lparr>st_num_points = 2, st_columns = [''T (K)'', ''CH4 (mole_fraction)'', ''comment''],
           st_shape = (2, 3)\<rparr>"
    by code_simp
  from statistics_match_table [OF h] h show ?thesis by auto
qed

theorem empty_group_has_no_table_witness:
  "map children (findall_elem empty_points_group ''dataPoint'') = [[], []]
   \<and> dg_datapoints (parse_datagroup example_float empty_points_group) = []
   \<and> dg_data_df (parse_datagroup example_float empty_points_group) = None
   \<and> dg_statistics (parse_datagroup example_float empty_points_group) = None
   \<and> dg_properties (parse_datagroup example_float empty_points_group) =
       [\<lparr>pi_id = Some ''x1'', pi_name = ''temperature'', pi_label = [], pi_units = ''K'',
         pi_species = None, pi_column_name = ''temperature (K)''\<rparr>]"
proof -
  have h: "\<forall>dp \<in> set (findall_elem empty_points_group ''dataPoint''). children dp = []"
    by code_simp
  have p: "map parse_property (findall_elem empty_points_group ''property'') =
       [\<lparr>pi_id = Some ''x1'', pi_name = ''temperature'', pi_label = [], pi_units = ''K'',
         pi_species = None, pi_column_name = ''temperature (K)''\<rparr>]"
    by code_simp
  have c: "map children (findall_elem empty_points_group ''dataPoint'') = [[], []]"
    by code_simp
  note main = empty_group_has_no_table [of empty_points_group example_float]
  from main h have e: "dg_datapoints (parse_datagroup example_float empty_points_group) = []"
    by blast
  with main p c show ?thesis by simp
qed

subsection \<open>The structural validator\<close>






subsection \<open>Common properties and the initial composition\<close>

lemma common_loop_map_of:
  "map_of (common_loop pf ps acc) =
     map_of acc ++
     map_of (rev (map (\<lambda>p. (property_key p,
                              Scalar (property_value pf p) (get_attr_default p ''units'' [])
                                (get_attr_default p ''name'' []))) ps))"
proof (induction ps arbitrary: acc)
  case Nil
  show ?case by simp
next
  case (Cons p ps)
  show ?case
    by (simp add: Cons.IH AList.update_conv' map_add_def fun_eq_iff split: option.splits)
qed

lemma child_is_descendant:
  "c \<in> set (children e) \<Longrightarrow> c \<in> set (concat (map iter (children e)))"
proof -
  assume "c \<in> set (children e)"
  moreover have "c \<in> set (iter c)" by (cases c) simp
  ultimately show ?thesis by auto
qed

lemma find_desc_attr_child:
  assumes "p \<in> set (findall_elem e t)" and "get_attr p k = Some v"
  shows "find_desc_attr e t k v \<noteq> None"
proof -
  from assms(1) have "p \<in> set (children e)" "tag p = t"
    by (auto simp add: findall_elem_def)
  then have "p \<in> set (findall_desc e t)"
    using child_is_descendant [of p e] by (simp add: findall_desc_def)
  with assms(2) have "filter (\<lambda>d. get_attr d k = Some v) (findall_desc e t) \<noteq> []"
    unfolding filter_empty_conv by blast
  then show ?thesis
    by (simp add: find_desc_attr_def split: list.splits)
qed

text \<open>
  Claim C9, amended. Let the initial-composition property be a direct child of
  \<^verbatim>\<open>commonProperties\<close> without a \<^verbatim>\<open>value\<close> child, let no later property of
  \<^verbatim>\<open>commonProperties\<close> have the same key (label when not empty, else name), let the key
  differ from \<^verbatim>\<open>'initial_composition'\<close>, and let decoding return. Then the decoded
  mapping holds the species mapping under \<^verbatim>\<open>'initial_composition'\<close> and, under the
  property's key, a scalar entry whose value is the property's raw text.
\<close>

theorem composition_property_listed_as_scalar:
  assumes "find_elem root ''commonProperties'' = Some common_props"
    and "findall_elem common_props ''property'' = before @ p # after"
    and "get_attr p ''name'' = Some ''initial composition''"
    and "find_elem p ''value'' = None"
    and "property_key p \<notin> property_key ` set after"
    and "property_key p \<noteq> ''initial_composition''"
    and "parse_common_properties pf root = Inr properties"
  shows "map_of properties (property_key p) =
           Some (Scalar (case etext p of None \<Rightarrow> PNone | Some s \<Rightarrow> PStr s)
                   (get_attr_default p ''units'' []) ''initial composition'')
         \<and> (\<exists>composition.
               map_of properties ''initial_composition'' = Some (Composition composition))"
proof -
  let ?entry = "\<lambda>p. (property_key p,
                      Scalar (property_value pf p) (get_attr_default p ''units'' [])
                        (get_attr_default p ''name'' []))"
  let ?loop = "common_loop pf (findall_elem common_props ''property'') []"
  have p_in: "p \<in> set (findall_elem common_props ''property'')"
    unfolding assms(2) by simp
  from find_desc_attr_child [OF p_in assms(3)]
  obtain ic where ic: "find_desc_attr common_props ''property'' ''name'' ''initial composition'' = Some ic"
    by auto
  from assms(7) obtain composition where
      comp: "component_loop pf (findall_elem ic ''component'') [] = Inr composition"
      and props: "properties = AList.update ''initial_composition'' (Composition composition) ?loop"
    by (auto simp add: parse_common_properties_def assms(1) ic Let_def split: sum.splits)
  have "map_of (rev (map ?entry after)) (property_key p) = None"
    using assms(5) by (auto simp add: map_of_eq_None_iff image_image)
  then have "map_of ?loop (property_key p) = Some (snd (?entry p))"
    unfolding common_loop_map_of assms(2)
    by (simp add: map_add_def)
  moreover have "snd (?entry p) =
           Scalar (case etext p of None \<Rightarrow> PNone | Some s \<Rightarrow> PStr s)
                   (get_attr_default p ''units'' []) ''initial composition''"
    using assms(3,4) by (simp add: property_value_def get_attr_def get_attr_default_def)
  ultimately have 1: "map_of properties (property_key p) =
           Some (Scalar (case etext p of None \<Rightarrow> PNone | Some s \<Rightarrow> PStr s)
                   (get_attr_default p ''units'' []) ''initial composition'')"
    unfolding props using assms(6) by (simp add: AList.update_conv')
  have 2: "map_of properties ''initial_composition'' = Some (Composition composition)"
    unfolding props by (simp add: AList.update_conv')
  from 1 2 show ?thesis by blast
qed

lemma amount_value_default:
  "t = None \<or> t = Some [] \<Longrightarrow> amount_value pf t = Inr (PInt 0)"
  by (auto simp add: amount_value_def)

lemma amount_value_raises:
  "s \<noteq> [] \<Longrightarrow> pf s = None \<Longrightarrow> amount_value pf (Some s) = Inl ValueError"
  by (simp add: amount_value_def)

text \<open>
  Claim C4 on \<open>unparsable_amount_document\<close>, whose amount text \<^verbatim>\<open>abc\<close> is no float:
  the claim asks for the amount \<^verbatim>\<open>0\<close>, the decoder raises \<^verbatim>\<open>ValueError\<close>. The
  default only covers a missing or empty text (\<open>amount_value_default\<close>).
\<close>

theorem unparsable_amount_raises:
  "example_float ''abc'' = None
   \<and> parse_common_properties example_float unparsable_amount_document = Inl ValueError"
  by code_simp

text \<open>
  Claim C10. A component without a \<^verbatim>\<open>speciesLink\<close> child or without an
  \<^verbatim>\<open>amount\<close> child is skipped: the loop gives the same result, entries and errors
  alike, as on the list without such components, and a list of such components alone
  leaves the composition as it was, with no error.
\<close>

theorem component_loop_skips_incomplete:
  "component_loop pf components composition =
     component_loop pf
       (filter (\<lambda>c. find_elem c ''speciesLink'' \<noteq> None \<and> find_elem c ''amount'' \<noteq> None)
          components)
       composition
   \<and> ((\<forall>c \<in> set components. find_elem c ''speciesLink'' = None \<or> find_elem c ''amount'' = None)
        \<longrightarrow> component_loop pf components composition = Inr composition)"
proof
  show "component_loop pf components composition =
     component_loop pf
       (filter (\<lambda>c. find_elem c ''speciesLink'' \<noteq> None \<and> find_elem c ''amount'' \<noteq> None)
          components)
       composition"
  proof (induction components arbitrary: composition)
    case Nil
    show ?case by simp
  next
    case (Cons c cs)
    show ?case
      by (cases "find_elem c ''speciesLink''"; cases "find_elem c ''amount''")
         (simp_all add: Cons.IH Let_def split: sum.splits)
  qed
  show "(\<forall>c \<in> set components. find_elem c ''speciesLink'' = None \<or> find_elem c ''amount'' = None)
        \<longrightarrow> component_loop pf components composition = Inr composition"
    by (induction components arbitrary: composition) (auto split: option.splits)
qed

theorem component_loop_skips_incomplete_witness:
  "component_loop example_float
     [complete_component, component_without_amount, component_without_species] []
     = Inr [(''CH4'', \<lparr>ce_amount = PFloat 1, ce_units = ''mole_fraction''\<rparr>)]
   \<and> component_loop example_float [component_without_amount, component_without_species] []
     = Inr []"
proof -
  have f: "component_loop example_float
             (filter (\<lambda>c. find_elem c ''speciesLink'' \<noteq> None \<and> find_elem c ''amount'' \<noteq> None)
                [complete_component, component_without_amount, component_without_species]) []
           = Inr [(''CH4'', \<lparr>ce_amount = PFloat 1, ce_units = ''mole_fraction''\<rparr>)]"
    by code_simp
  have h: "\<forall>c \<in> set [component_without_amount, component_without_species].
             find_elem c ''speciesLink'' = None \<or> find_elem c ''amount'' = None"
    by code_simp
  have 1: "component_loop example_float
     [complete_component, component_without_amount, component_without_species] []
     = Inr [(''CH4'', \<lparr>ce_amount = PFloat 1, ce_units = ''mole_fraction''\<rparr>)]"
    using component_loop_skips_incomplete
            [of example_float
                "[complete_component, component_without_amount, component_without_species]" "[]",
             THEN conjunct1] f
    by (rule trans)
  have 2: "component_loop example_float [component_without_amount, component_without_species] []
     = Inr []"
    by (rule component_loop_skips_incomplete
               [of example_float "[component_without_amount, component_without_species]" "[]",
                THEN conjunct2, THEN mp, OF h])
  from 1 2 show ?thesis by blast
qed

theorem composition_property_listed_as_scalar_witness:
  "parse_common_properties example_float composition_document = Inr composition_decoded
   \<and> map_of composition_decoded ''initial composition''
       = Some (Scalar (PStr '' '') [] ''initial composition'')
   \<and> (\<exists>composition.
         map_of composition_decoded ''initial_composition'' = Some (Composition composition))"
proof -
  let ?cp = "Elem ''commonProperties'' [] None [composition_property, temperature_property]"
  have a: "find_elem composition_document ''commonProperties'' = Some ?cp"
    by code_simp
  have b: "findall_elem ?cp ''property'' = [] @ composition_property # [temperature_property]"
    by code_simp
  have c: "get_attr composition_property ''name'' = Some ''initial composition''"
    by code_simp
  have d: "find_elem composition_property ''value'' = None"
    by code_simp
  have e: "property_key composition_property \<notin> property_key ` set [temperature_property]"
    by code_simp
  have f: "property_key composition_property \<noteq> ''initial_composition''"
    by code_simp
  have g: "parse_common_properties example_float composition_document = Inr composition_decoded"
    by code_simp
  have k: "property_key composition_property = ''initial composition''"
    by code_simp
  have t: "(case etext composition_property of None \<Rightarrow> PNone | Some s \<Rightarrow> PStr s) = (PStr '' '' :: int pyval)"
    by code_simp
  have u: "get_attr_default composition_property ''units'' [] = []"
    by code_simp
  note main = composition_property_listed_as_scalar [OF a b c d e f g]
  from main have 1: "map_of composition_decoded ''initial composition''
       = Some (Scalar (PStr '' '') [] ''initial composition'')"
    unfolding k t u by blast
  from main have 2: "\<exists>composition.
         map_of composition_decoded ''initial_composition'' = Some (Composition composition)"
    by blast
  from g 1 2 show ?thesis by blast
qed

text \<open>
  Claim C9 as stated fails on \<open>nested_composition_document\<close>: the composition property is
  found below \<^verbatim>\<open>commonProperties\<close>, the species mapping is decoded, and the mapping has
  no other entry.
\<close>

theorem composition_property_listed_as_scalar_counterexample:
  "find_elem nested_composition_document ''commonProperties'' = Some nested_common_properties
   \<and> find_desc_attr nested_common_properties ''property'' ''name'' ''initial composition''
       \<noteq> None
   \<and> parse_common_properties example_float nested_composition_document
       = Inr [(''initial_composition'',
               Composition [(''CH4'', \<lparr>ce_amount = PFloat 1, ce_units = ''mole_fraction''\<rparr>)])]"
  by code_simp

subsection \<open>The encoder returns\<close>

lemma for_each_returns:
  "(\<And>x. x \<in> set xs \<Longrightarrow> \<exists>y. f x = Inr y) \<Longrightarrow> \<exists>ys. for_each f xs = Inr ys"
proof (induction xs)
  case Nil
  show ?case by simp
next
  case (Cons x xs)
  from Cons.prems obtain y where y: "f x = Inr y" by auto
  from Cons obtain ys where ys: "for_each f xs = Inr ys" by auto
  show ?case by (simp add: y ys and_then_def)
qed

lemma quantity_property_returns:
  "q_units q \<noteq> None \<Longrightarrow> q_value q \<noteq> None \<Longrightarrow> \<exists>e. quantity_property pystr name label q = Inr e"
  by (auto simp add: quantity_property_def subscript_def and_then_def)

text \<open>A temperature or pressure entry without units is where the encoder does raise.\<close>

lemma quantity_without_units_raises:
  "q_units q = None \<Longrightarrow> quantity_property pystr name label q = Inl (KeyError ''units'')"
  by (simp add: quantity_property_def subscript_def and_then_def)

lemma optional_quantity_returns:
  "quantity_complete q \<Longrightarrow> \<exists>es. optional_quantity pystr name label q = Inr es"
  by (cases q)
     (auto simp add: optional_quantity_def quantity_property_def quantity_complete_def
        subscript_def and_then_def)

lemma quantity_property_v2_returns:
  "quantity_complete q \<Longrightarrow> \<exists>es. quantity_property_v2 pystr name q = Inr es"
  by (cases q)
     (auto simp add: quantity_property_v2_def quantity_complete_def subscript_def and_then_def)

lemma component_elem_returns:
  "comp_complete c \<Longrightarrow> \<exists>e. component_elem pystr c = Inr e"
  by (auto simp add: component_elem_def comp_complete_def subscript_def and_then_def)

lemma component_elem_v2_returns:
  "comp_complete c \<Longrightarrow> \<exists>e. component_elem_v2 pystr c = Inr e"
  by (auto simp add: component_elem_v2_def comp_complete_def subscript_def and_then_def)

lemma initial_composition_returns:
  assumes "entries_complete conditions"
  shows "\<exists>es. initial_composition pystr conditions = Inr es"
proof (cases "cond_composition conditions")
  case None
  then show ?thesis by (simp add: initial_composition_def)
next
  case (Some composition)
  with assms have "\<And>c. c \<in> set composition \<Longrightarrow> \<exists>e. component_elem pystr c = Inr e"
    by (auto simp add: entries_complete_def list_all_iff intro: component_elem_returns)
  then obtain cs where "for_each (component_elem pystr) composition = Inr cs"
    using for_each_returns [of composition "component_elem pystr"] by blast
  with Some show ?thesis by (simp add: initial_composition_def and_then_def)
qed

lemma initial_composition_v2_returns:
  assumes "entries_complete conditions"
  shows "\<exists>es. initial_composition_v2 pystr conditions = Inr es"
proof (cases "cond_composition conditions")
  case None
  then show ?thesis by (simp add: initial_composition_v2_def)
next
  case (Some composition)
  with assms have "\<And>c. c \<in> set composition \<Longrightarrow> \<exists>e. component_elem_v2 pystr c = Inr e"
    by (auto simp add: entries_complete_def list_all_iff intro: component_elem_v2_returns)
  then obtain cs where "for_each (component_elem_v2 pystr) composition = Inr cs"
    using for_each_returns [of composition "component_elem_v2 pystr"] by blast
  with Some show ?thesis by (simp add: initial_composition_v2_def and_then_def)
qed

lemma common_properties_elem_returns:
  assumes "entries_complete conditions"
  shows "\<exists>e. common_properties_elem pystr conditions optional = Inr e"
proof -
  from assms have qt: "quantity_complete (cond_temperature conditions)"
    and qp: "quantity_complete (cond_pressure conditions)"
    by (simp_all add: entries_complete_def)
  from optional_quantity_returns [OF qt]
  obtain t where t: "optional_quantity pystr ''temperature'' ''T'' (cond_temperature conditions) = Inr t"
    by blast
  from optional_quantity_returns [OF qp]
  obtain p where p: "optional_quantity pystr ''pressure'' ''P'' (cond_pressure conditions) = Inr p"
    by blast
  from initial_composition_returns [OF assms]
  obtain c where c: "initial_composition pystr conditions = Inr c" by blast
  show ?thesis by (simp add: common_properties_elem_def t p c and_then_def)
qed

lemma x_property_returns: "x_axis_complete a \<Longrightarrow> \<exists>e. x_property a = Inr e"
  by (auto simp add: x_property_def x_axis_complete_def subscript_def and_then_def)

lemma y_property_returns: "y_axis_complete a \<Longrightarrow> \<exists>e. y_property common_species a = Inr e"
  by (auto simp add: y_property_def y_axis_complete_def subscript_def and_then_def)

lemma axis_cell_returns:
  "ax_id a \<noteq> None \<Longrightarrow> ax_name a \<noteq> None \<Longrightarrow> \<exists>es. axis_cell pystr row a = Inr es"
  by (auto simp add: axis_cell_def subscript_def and_then_def split: option.splits)

lemma data_point_returns:
  assumes "x_axis_complete x" and "list_all y_axis_complete ys"
  shows "\<exists>e. data_point pystr x ys row = Inr e"
proof -
  from assms(1) obtain xc where xc: "axis_cell pystr row x = Inr xc"
    using axis_cell_returns [of x pystr row] by (auto simp add: x_axis_complete_def)
  from assms(2) have "\<And>a. a \<in> set ys \<Longrightarrow> \<exists>es. axis_cell pystr row a = Inr es"
    by (auto simp add: list_all_iff y_axis_complete_def intro: axis_cell_returns)
  then obtain yc where yc: "for_each (axis_cell pystr row) ys = Inr yc"
    using for_each_returns [of ys "axis_cell pystr row"] by blast
  show ?thesis by (simp add: data_point_def xc yc and_then_def)
qed

lemma data_group_elem_returns:
  assumes "dgroup_complete_v1 dg"
  shows "\<exists>e. data_group_elem pystr common_species dg = Inr e"
proof -
  from assms obtain i name x ys where f: "g_id dg = Some i" "g_name dg = Some name"
      "g_x_axis dg = Some x" "g_y_axes dg = Some ys"
      and x: "x_axis_complete x" and ys: "list_all y_axis_complete ys"
    by (auto simp add: dgroup_complete_v1_def split: option.splits)
  from x obtain xp where xp: "x_property x = Inr xp"
    using x_property_returns by blast
  from ys have "\<And>a. a \<in> set ys \<Longrightarrow> \<exists>e. y_property common_species a = Inr e"
    by (auto simp add: list_all_iff intro: y_property_returns)
  then obtain yp where yp: "for_each (y_property common_species) ys = Inr yp"
    using for_each_returns [of ys "y_property common_species"] by blast
  obtain pts where pts: "for_each (data_point pystr x ys)
                           (case g_data dg of None \<Rightarrow> [] | Some rows \<Rightarrow> rows) = Inr pts"
    using for_each_returns [of _ "data_point pystr x ys"] data_point_returns [OF x ys]
    by blast
  show ?thesis
    by (simp add: data_group_elem_def f xp yp pts subscript_def and_then_def)
qed

lemma data_group_elem_v2_returns:
  "dgroup_complete_v2 dg \<Longrightarrow> \<exists>e. data_group_elem_v2 pystr dg = Inr e"
  by (auto simp add: data_group_elem_v2_def dgroup_complete_v2_def subscript_def and_then_def)

lemma v1_root_placeholders:
  "bi_author bi = None \<Longrightarrow>
     find_elem (Elem ''experiment'' [] None
                  (file_metadata bi @ [file_version] @ type_and_apparatus bi @ rest))
       ''fileAuthor'' = Some (text_elem ''fileAuthor'' ''Unknown'')"
  "bi_exp_type bi = None \<Longrightarrow>
     find_elem (Elem ''experiment'' [] None
                  (file_metadata bi @ [file_version] @ type_and_apparatus bi @ rest))
       ''experimentType'' = Some (text_elem ''experimentType'' [])"
  "bi_reactor bi = None \<Longrightarrow>
     find_elem (Elem ''experiment'' [] None
                  (file_metadata bi @ [file_version] @ type_and_apparatus bi @ rest))
       ''apparatus'' = Some (Elem ''apparatus'' [] None [text_elem ''kind'' ''JSR''])"
  by (simp_all add: find_elem_def findall_elem_def file_metadata_def file_version_def
        type_and_apparatus_def text_elem_def)

lemma v2_root_placeholders:
  "bi_author bi = None \<Longrightarrow>
     find_elem (Elem ''experiment'' [] None (file_metadata_v2 bi @ rest)) ''fileAuthor''
       = Some (text_elem ''fileAuthor'' ''Unknown'')"
  "bi_exp_type bi = None \<Longrightarrow>
     find_elem (Elem ''experiment'' [] None (file_metadata_v2 bi @ rest)) ''experimentType''
       = Some (text_elem ''experimentType'' [])"
  "bi_reactor bi = None \<Longrightarrow>
     find_elem (Elem ''experiment'' [] None (file_metadata_v2 bi @ rest)) ''apparatus''
       = Some (Elem ''apparatus'' [] None [text_elem ''kind'' ''JSR''])"
  by (simp_all add: find_elem_def findall_elem_def file_metadata_v2_def text_elem_def)

text \<open>
  The other conditions on the composition property are needed as well: with a
  \<^verbatim>\<open>value\<close> child the entry holds the coerced value, a later property with the same
  key takes the entry over, and under the reserved key the species mapping replaces it.
\<close>

lemma composition_with_value_child:
  "parse_common_properties example_float value_child_document =
     Inr [(''initial composition'', Scalar (PFloat 1) [] ''initial composition''),
          (''initial_composition'',
           Composition [(''CH4'', \<lparr>ce_amount = PFloat 1, ce_units = ''mole_fraction''\<rparr>)])]"
  by code_simp

lemma composition_key_rebound:
  "parse_common_properties example_float rebound_key_document =
     Inr [(''mix'', Scalar (PStr ''lean'') [] ''mixture''),
          (''initial_composition'',
           Composition [(''CH4'', \<lparr>ce_amount = PFloat 1, ce_units = ''mole_fraction''\<rparr>)])]"
  by code_simp

lemma composition_reserved_label:
  "parse_common_properties example_float reserved_label_document =
     Inr [(''initial_composition'',
           Composition [(''CH4'', \<lparr>ce_amount = PFloat 1, ce_units = ''mole_fraction''\<rparr>)])]"
  by code_simp

subsection \<open>The encoders on incomplete drafts\<close>

lemma build_root_v1_returns:
  assumes "entries_complete (conditions_of draft)"
    and "list_all dgroup_complete_v1 (d_data_groups draft)"
  shows "\<exists>cp groups. build_root_v1 pystr common_species draft =
           Inr (Elem ''experiment'' [] None
                  (file_metadata (basic_info_of draft) @ [file_version]
                   @ type_and_apparatus (basic_info_of draft)
                   @ bibliography_link pystr (basic_info_of draft) @ [cp] @ groups))"
proof -
  from common_properties_elem_returns [OF assms(1)]
  obtain cp where cp: "common_properties_elem pystr (conditions_of draft) (d_optional_params draft) = Inr cp"
    by blast
  from assms(2) have "\<And>dg. dg \<in> set (d_data_groups draft)
                        \<Longrightarrow> \<exists>e. data_group_elem pystr common_species dg = Inr e"
    by (auto simp add: list_all_iff intro: data_group_elem_returns)
  then obtain groups where
      groups: "for_each (data_group_elem pystr common_species) (d_data_groups draft) = Inr groups"
    using for_each_returns [of "d_data_groups draft" "data_group_elem pystr common_species"]
    by blast
  have "build_root_v1 pystr common_species draft =
           Inr (Elem ''experiment'' [] None
                  (file_metadata (basic_info_of draft) @ [file_version]
                   @ type_and_apparatus (basic_info_of draft)
                   @ bibliography_link pystr (basic_info_of draft) @ [cp] @ groups))"
    using cp groups
    by (simp add: build_root_v1_def Let_def and_then_def
          basic_info_of_def conditions_of_def)
  then show ?thesis by blast
qed

lemma build_root_v2_returns:
  assumes "entries_complete (conditions_of draft)"
    and "list_all dgroup_complete_v2 (d_data_groups draft)"
  shows "\<exists>cp groups. build_root_v2 pystr draft =
           Inr (Elem ''experiment'' [] None
                  (file_metadata_v2 (basic_info_of draft) @ [cp] @ groups))"
proof -
  from assms(1) have qt: "quantity_complete (cond_temperature (conditions_of draft))"
    and qp: "quantity_complete (cond_pressure (conditions_of draft))"
    by (simp_all add: entries_complete_def)
  from quantity_property_v2_returns [OF qt]
  obtain t where t: "quantity_property_v2 pystr ''temperature'' (cond_temperature (conditions_of draft)) = Inr t"
    by blast
  from quantity_property_v2_returns [OF qp]
  obtain p where p: "quantity_property_v2 pystr ''pressure'' (cond_pressure (conditions_of draft)) = Inr p"
    by blast
  from initial_composition_v2_returns [OF assms(1)]
  obtain c where c: "initial_composition_v2 pystr (conditions_of draft) = Inr c"
    by blast
  from assms(2) have "\<And>dg. dg \<in> set (d_data_groups draft)
                        \<Longrightarrow> \<exists>e. data_group_elem_v2 pystr dg = Inr e"
    by (auto simp add: list_all_iff intro: data_group_elem_v2_returns)
  then obtain groups where
      groups: "for_each (data_group_elem_v2 pystr) (d_data_groups draft) = Inr groups"
    using for_each_returns [of "d_data_groups draft" "data_group_elem_v2 pystr"]
    by blast
  have "build_root_v2 pystr draft =
           Inr (Elem ''experiment'' [] None
                  (file_metadata_v2 (basic_info_of draft)
                   @ [Elem ''commonProperties'' [] None (t @ p @ c)] @ groups))"
    using t p c groups
    by (simp add: build_root_v2_def Let_def and_then_def
          basic_info_of_def conditions_of_def)
  then show ?thesis by blast
qed


text \<open>
  Claim C8, amended. Let every entry that is present inside \<^verbatim>\<open>conditions\<close> and every
  data group carry the keys the encoder subscripts; whichever fields of \<^verbatim>\<open>basic_info\<close>
  and entries of \<^verbatim>\<open>conditions\<close> are absent, both encoders build their tree without
  raising. In it the text of \<^verbatim>\<open>fileAuthor\<close> is \<^verbatim>\<open>Unknown\<close> when the draft has no
  author, the text of \<^verbatim>\<open>experimentType\<close> is empty when it has no experiment type, and
  the apparatus kind is \<^verbatim>\<open>JSR\<close> when it has no reactor. The result of the encoder is
  the result of the tail on that tree: when \<^verbatim>\<open>ET.tostring\<close> and
  \<^verbatim>\<open>minidom.parseString\<close> accept it, the pretty-printed text without its blank lines,
  and otherwise the exception of the library.
\<close>

theorem encoder_defaults_missing_fields:
  assumes "entries_complete (conditions_of draft)"
  shows "(list_all dgroup_complete_v1 (d_data_groups draft) \<longrightarrow>
            (\<exists>root. build_root_v1 pystr common_species draft = Inr root
               \<and> create_enhanced_xml_v1 xml pystr common_species draft = beautify_xml xml root
               \<and> (\<forall>xml_str dom.
                     et_tostring xml root = Inr xml_str \<and> parseString xml xml_str = Inr dom
                     \<longrightarrow> create_enhanced_xml_v1 xml pystr common_species draft =
                           Inr (join_with [CHR 0x0A]
                                  (filter (\<lambda>line. str_strip xml line \<noteq> [])
                                     (split_on (CHR 0x0A) (toprettyxml xml dom ''    '')))))
               \<and> (bi_author (basic_info_of draft) = None \<longrightarrow>
                    find_elem root ''fileAuthor'' = Some (text_elem ''fileAuthor'' ''Unknown''))
               \<and> (bi_exp_type (basic_info_of draft) = None \<longrightarrow>
                    find_elem root ''experimentType'' = Some (text_elem ''experimentType'' []))
               \<and> (bi_reactor (basic_info_of draft) = None \<longrightarrow>
                    find_elem root ''apparatus''
                      = Some (Elem ''apparatus'' [] None [text_elem ''kind'' ''JSR'']))))
       \<and> (list_all dgroup_complete_v2 (d_data_groups draft) \<longrightarrow>
            (\<exists>root. build_root_v2 pystr draft = Inr root
               \<and> create_enhanced_xml_v2 xml pystr draft = beautify_xml xml root
               \<and> (\<forall>xml_str dom.
                     et_tostring xml root = Inr xml_str \<and> parseString xml xml_str = Inr dom
                     \<longrightarrow> create_enhanced_xml_v2 xml pystr draft =
                           Inr (join_with [CHR 0x0A]
                                  (filter (\<lambda>line. str_strip xml line \<noteq> [])
                                     (split_on (CHR 0x0A) (toprettyxml xml dom ''    '')))))
               \<and> (bi_author (basic_info_of draft) = None \<longrightarrow>
                    find_elem root ''fileAuthor'' = Some (text_elem ''fileAuthor'' ''Unknown''))
               \<and> (bi_exp_type (basic_info_of draft) = None \<longrightarrow>
                    find_elem root ''experimentType'' = Some (text_elem ''experimentType'' []))
               \<and> (bi_reactor (basic_info_of draft) = None \<longrightarrow>
                    find_elem root ''apparatus''
                      = Some (Elem ''apparatus'' [] None [text_elem ''kind'' ''JSR'']))))"
proof (intro conjI impI)
  assume g: "list_all dgroup_complete_v1 (d_data_groups draft)"
  from build_root_v1_returns [OF assms g, of pystr common_species]
  obtain cp groups where r: "build_root_v1 pystr common_species draft =
           Inr (Elem ''experiment'' [] None
                  (file_metadata (basic_info_of draft) @ [file_version]
                   @ type_and_apparatus (basic_info_of draft)
                   @ bibliography_link pystr (basic_info_of draft) @ [cp] @ groups))"
    by blast
  let ?root = "Elem ''experiment'' [] None
                  (file_metadata (basic_info_of draft) @ [file_version]
                   @ type_and_apparatus (basic_info_of draft)
                   @ bibliography_link pystr (basic_info_of draft) @ [cp] @ groups)"
  have c: "create_enhanced_xml_v1 xml pystr common_species draft = beautify_xml xml ?root"
    by (simp add: create_enhanced_xml_v1_def r and_then_def)
  show "\<exists>root. build_root_v1 pystr common_species draft = Inr root
               \<and> create_enhanced_xml_v1 xml pystr common_species draft = beautify_xml xml root
               \<and> (\<forall>xml_str dom.
                     et_tostring xml root = Inr xml_str \<and> parseString xml xml_str = Inr dom
                     \<longrightarrow> create_enhanced_xml_v1 xml pystr common_species draft =
                           Inr (join_with [CHR 0x0A]
                                  (filter (\<lambda>line. str_strip xml line \<noteq> [])
                                     (split_on (CHR 0x0A) (toprettyxml xml dom ''    '')))))
               \<and> (bi_author (basic_info_of draft) = None \<longrightarrow>
                    find_elem root ''fileAuthor'' = Some (text_elem ''fileAuthor'' ''Unknown''))
               \<and> (bi_exp_type (basic_info_of draft) = None \<longrightarrow>
                    find_elem root ''experimentType'' = Some (text_elem ''experimentType'' []))
               \<and> (bi_reactor (basic_info_of draft) = None \<longrightarrow>
                    find_elem root ''apparatus''
                      = Some (Elem ''apparatus'' [] None [text_elem ''kind'' ''JSR'']))"
  proof (intro exI [of _ ?root] conjI allI impI)
    show "build_root_v1 pystr common_species draft = Inr ?root"
      by (rule r)
    show "create_enhanced_xml_v1 xml pystr common_species draft = beautify_xml xml ?root"
      by (rule c)
    show "create_enhanced_xml_v1 xml pystr common_species draft =
            Inr (join_with [CHR 0x0A]
                   (filter (\<lambda>line. str_strip xml line \<noteq> [])
                      (split_on (CHR 0x0A) (toprettyxml xml dom ''    ''))))"
      if "et_tostring xml ?root = Inr xml_str \<and> parseString xml xml_str = Inr dom"
      for xml_str dom
      using that by (simp add: c beautify_xml_def and_then_def Let_def)
    show "find_elem ?root ''fileAuthor'' = Some (text_elem ''fileAuthor'' ''Unknown'')"
      if "bi_author (basic_info_of draft) = None"
      using that by (rule v1_root_placeholders(1))
    show "find_elem ?root ''experimentType'' = Some (text_elem ''experimentType'' [])"
      if "bi_exp_type (basic_info_of draft) = None"
      using that by (rule v1_root_placeholders(2))
    show "find_elem ?root ''apparatus''
            = Some (Elem ''apparatus'' [] None [text_elem ''kind'' ''JSR''])"
      if "bi_reactor (basic_info_of draft) = None"
      using that by (rule v1_root_placeholders(3))
  qed
next
  assume g: "list_all dgroup_complete_v2 (d_data_groups draft)"
  from build_root_v2_returns [OF assms g, of pystr]
  obtain cp groups where r: "build_root_v2 pystr draft =
           Inr (Elem ''experiment'' [] None
                  (file_metadata_v2 (basic_info_of draft) @ [cp] @ groups))"
    by blast
  let ?root = "Elem ''experiment'' [] None
                  (file_metadata_v2 (basic_info_of draft) @ [cp] @ groups)"
  have c: "create_enhanced_xml_v2 xml pystr draft = beautify_xml xml ?root"
    by (simp add: create_enhanced_xml_v2_def r and_then_def)
  show "\<exists>root. build_root_v2 pystr draft = Inr root
               \<and> create_enhanced_xml_v2 xml pystr draft = beautify_xml xml root
               \<and> (\<forall>xml_str dom.
                     et_tostring xml root = Inr xml_str \<and> parseString xml xml_str = Inr dom
                     \<longrightarrow> create_enhanced_xml_v2 xml pystr draft =
                           Inr (join_with [CHR 0x0A]
                                  (filter (\<lambda>line. str_strip xml line \<noteq> [])
                                     (split_on (CHR 0x0A) (toprettyxml xml dom ''    '')))))
               \<and> (bi_author (basic_info_of draft) = None \<longrightarrow>
                    find_elem root ''fileAuthor'' = Some (text_elem ''fileAuthor'' ''Unknown''))
               \<and> (bi_exp_type (basic_info_of draft) = None \<longrightarrow>
                    find_elem root ''experimentType'' = Some (text_elem ''experimentType'' []))
               \<and> (bi_reactor (basic_info_of draft) = None \<longrightarrow>
                    find_elem root ''apparatus''
                      = Some (Elem ''apparatus'' [] None [text_elem ''kind'' ''JSR'']))"
  proof (intro exI [of _ ?root] conjI allI impI)
    show "build_root_v2 pystr draft = Inr ?root"
      by (rule r)
    show "create_enhanced_xml_v2 xml pystr draft = beautify_xml xml ?root"
      by (rule c)
    show "create_enhanced_xml_v2 xml pystr draft =
            Inr (join_with [CHR 0x0A]
                   (filter (\<lambda>line. str_strip xml line \<noteq> [])
                      (split_on (CHR 0x0A) (toprettyxml xml dom ''    ''))))"
      if "et_tostring xml ?root = Inr xml_str \<and> parseString xml xml_str = Inr dom"
      for xml_str dom
      using that by (simp add: c beautify_xml_def and_then_def Let_def)
    show "find_elem ?root ''fileAuthor'' = Some (text_elem ''fileAuthor'' ''Unknown'')"
      if "bi_author (basic_info_of draft) = None"
      using that by (rule v2_root_placeholders(1))
    show "find_elem ?root ''experimentType'' = Some (text_elem ''experimentType'' [])"
      if "bi_exp_type (basic_info_of draft) = None"
      using that by (rule v2_root_placeholders(2))
    show "find_elem ?root ''apparatus''
            = Some (Elem ''apparatus'' [] None [text_elem ''kind'' ''JSR''])"
      if "bi_reactor (basic_info_of draft) = None"
      using that by (rule v2_root_placeholders(3))
  qed
qed

theorem encoder_defaults_missing_fields_witness:
  "build_root_v1 example_str [] sparse_draft = Inr sparse_root_v1
   \<and> find_elem sparse_root_v1 ''fileAuthor'' = Some (Elem ''fileAuthor'' [] (Some ''Unknown'') [])
   \<and> find_elem sparse_root_v1 ''experimentType'' = Some (Elem ''experimentType'' [] (Some []) [])
   \<and> create_enhanced_xml_v1 example_xml example_str [] sparse_draft
       = Inr (join_with [CHR 0x0A] sparse_lines_v1)
   \<and> build_root_v2 example_str sparse_draft = Inr sparse_root_v2
   \<and> find_elem sparse_root_v2 ''fileAuthor'' = Some (Elem ''fileAuthor'' [] (Some ''Unknown'') [])
   \<and> find_elem sparse_root_v2 ''apparatus''
       = Some (Elem ''apparatus'' [] None [Elem ''kind'' [] (Some ''JSR'') []])
   \<and> create_enhanced_xml_v2 example_xml example_str sparse_draft
       = Inr (join_with [CHR 0x0A] sparse_lines_v2)"
proof -
  have c: "entries_complete (conditions_of sparse_draft)"
    by code_simp
  have g1: "list_all dgroup_complete_v1 (d_data_groups sparse_draft)"
    by code_simp
  have g2: "list_all dgroup_complete_v2 (d_data_groups sparse_draft)"
    by code_simp
  have a: "bi_author (basic_info_of sparse_draft) = None"
    by code_simp
  have t: "bi_exp_type (basic_info_of sparse_draft) = None"
    by code_simp
  have k: "bi_reactor (basic_info_of sparse_draft) = None"
    by code_simp
  have b1: "build_root_v1 example_str [] sparse_draft = Inr sparse_root_v1"
    by code_simp
  have b2: "build_root_v2 example_str sparse_draft = Inr sparse_root_v2"
    by code_simp
  have s1: "et_tostring example_xml sparse_root_v1 = Inr sparse_xml_str_v1
            \<and> parseString example_xml sparse_xml_str_v1 = Inr sparse_root_v1"
    by code_simp
  have s2: "et_tostring example_xml sparse_root_v2 = Inr sparse_xml_str_v2
            \<and> parseString example_xml sparse_xml_str_v2 = Inr sparse_root_v2"
    by code_simp
  have p1: "join_with [CHR 0x0A]
              (filter (\<lambda>line. str_strip example_xml line \<noteq> [])
                 (split_on (CHR 0x0A) (toprettyxml example_xml sparse_root_v1 ''    '')))
            = join_with [CHR 0x0A] sparse_lines_v1"
    by code_simp
  have p2: "join_with [CHR 0x0A]
              (filter (\<lambda>line. str_strip example_xml line \<noteq> [])
                 (split_on (CHR 0x0A) (toprettyxml example_xml sparse_root_v2 ''    '')))
            = join_with [CHR 0x0A] sparse_lines_v2"
    by code_simp
  note main = encoder_defaults_missing_fields
                [OF c, where pystr = example_str and common_species = "[]" and xml = example_xml]
  from main [THEN conjunct1, THEN mp, OF g1]
  obtain r1 where f1: "build_root_v1 example_str [] sparse_draft = Inr r1
               \<and> create_enhanced_xml_v1 example_xml example_str [] sparse_draft = beautify_xml example_xml r1
               \<and> (\<forall>xml_str dom.
                     et_tostring example_xml r1 = Inr xml_str
                     \<and> parseString example_xml xml_str = Inr dom
                     \<longrightarrow> create_enhanced_xml_v1 example_xml example_str [] sparse_draft =
                           Inr (join_with [CHR 0x0A]
                                  (filter (\<lambda>line. str_strip example_xml line \<noteq> [])
                                     (split_on (CHR 0x0A)
                                        (toprettyxml example_xml dom ''    '')))))
               \<and> (bi_author (basic_info_of sparse_draft) = None \<longrightarrow>
                    find_elem r1 ''fileAuthor'' = Some (text_elem ''fileAuthor'' ''Unknown''))
               \<and> (bi_exp_type (basic_info_of sparse_draft) = None \<longrightarrow>
                    find_elem r1 ''experimentType'' = Some (text_elem ''experimentType'' []))
               \<and> (bi_reactor (basic_info_of sparse_draft) = None \<longrightarrow>
                    find_elem r1 ''apparatus''
                      = Some (Elem ''apparatus'' [] None [text_elem ''kind'' ''JSR'']))"
    by (erule exE)
  note r1 = f1 [THEN conjunct1]
    and x1 = f1 [THEN conjunct2, THEN conjunct2, THEN conjunct1]
    and a1 = f1 [THEN conjunct2, THEN conjunct2, THEN conjunct2, THEN conjunct1]
    and t1 = f1 [THEN conjunct2, THEN conjunct2, THEN conjunct2, THEN conjunct2, THEN conjunct1]
  from r1 b1 have e1: "r1 = sparse_root_v1" by simp
  from main [THEN conjunct2, THEN mp, OF g2]
  obtain r2 where f2: "build_root_v2 example_str sparse_draft = Inr r2
               \<and> create_enhanced_xml_v2 example_xml example_str sparse_draft = beautify_xml example_xml r2
               \<and> (\<forall>xml_str dom.
                     et_tostring example_xml r2 = Inr xml_str
                     \<and> parseString example_xml xml_str = Inr dom
                     \<longrightarrow> create_enhanced_xml_v2 example_xml example_str sparse_draft =
                           Inr (join_with [CHR 0x0A]
                                  (filter (\<lambda>line. str_strip example_xml line \<noteq> [])
                                     (split_on (CHR 0x0A)
                                        (toprettyxml example_xml dom ''    '')))))
               \<and> (bi_author (basic_info_of sparse_draft) = None \<longrightarrow>
                    find_elem r2 ''fileAuthor'' = Some (text_elem ''fileAuthor'' ''Unknown''))
               \<and> (bi_exp_type (basic_info_of sparse_draft) = None \<longrightarrow>
                    find_elem r2 ''experimentType'' = Some (text_elem ''experimentType'' []))
               \<and> (bi_reactor (basic_info_of sparse_draft) = None \<longrightarrow>
                    find_elem r2 ''apparatus''
                      = Some (Elem ''apparatus'' [] None [text_elem ''kind'' ''JSR'']))"
    by (erule exE)
  note r2 = f2 [THEN conjunct1]
    and x2 = f2 [THEN conjunct2, THEN conjunct2, THEN conjunct1]
    and a2 = f2 [THEN conjunct2, THEN conjunct2, THEN conjunct2, THEN conjunct1]
    and k2 = f2 [THEN conjunct2, THEN conjunct2, THEN conjunct2, THEN conjunct2, THEN conjunct2]
  from r2 b2 have e2: "r2 = sparse_root_v2" by simp
  have w1: "find_elem sparse_root_v1 ''fileAuthor'' = Some (Elem ''fileAuthor'' [] (Some ''Unknown'') [])"
    using a1 a unfolding e1 text_elem_def by (rule mp)
  have w2: "find_elem sparse_root_v1 ''experimentType'' = Some (Elem ''experimentType'' [] (Some []) [])"
    using t1 t unfolding e1 text_elem_def by (rule mp)
  have w3: "create_enhanced_xml_v1 example_xml example_str [] sparse_draft
              = Inr (join_with [CHR 0x0A] sparse_lines_v1)"
    by (simp only: x1 [unfolded e1, THEN spec, THEN spec, THEN mp, OF s1] p1)
  have w4: "find_elem sparse_root_v2 ''fileAuthor'' = Some (Elem ''fileAuthor'' [] (Some ''Unknown'') [])"
    using a2 a unfolding e2 text_elem_def by (rule mp)
  have w5: "find_elem sparse_root_v2 ''apparatus''
              = Some (Elem ''apparatus'' [] None [Elem ''kind'' [] (Some ''JSR'') []])"
    using k2 k unfolding e2 text_elem_def by (rule mp)
  have w6: "create_enhanced_xml_v2 example_xml example_str sparse_draft
              = Inr (join_with [CHR 0x0A] sparse_lines_v2)"
    by (simp only: x2 [unfolded e2, THEN spec, THEN spec, THEN mp, OF s2] p2)
  from b1 w1 w2 w3 b2 w4 w5 w6 show ?thesis by (intro conjI)
qed

text \<open>
  Claim C8 as stated fails on \<open>unitless_draft\<close>, which has \<^verbatim>\<open>basic_info\<close> and
  \<^verbatim>\<open>conditions\<close> and lacks the units inside its temperature entry: both encoders
  raise \<^verbatim>\<open>KeyError\<close>.
\<close>

theorem encoder_defaults_missing_fields_counterexample:
  "d_basic_info unitless_draft \<noteq> None
   \<and> d_conditions unitless_draft \<noteq> None
   \<and> create_enhanced_xml_v1 example_xml example_str [] unitless_draft = Inl (KeyError ''units'')
   \<and> create_enhanced_xml_v2 example_xml example_str unitless_draft = Inl (KeyError ''units'')"
  by code_simp

text \<open>
  The exception of the library is a real outcome: \<open>bad_id_draft\<close> has every key, its tree
  is built, and \<^verbatim>\<open>minidom.parseString\<close> rejects the tag \<^verbatim>\<open>1abc\<close>.
\<close>

lemma bad_axis_id_raises:
  "entries_complete (conditions_of bad_id_draft)
   \<and> list_all dgroup_complete_v1 (d_data_groups bad_id_draft)
   \<and> build_root_v1 example_str [] bad_id_draft = Inr bad_id_root_v1
   \<and> create_enhanced_xml_v1 example_xml example_str [] bad_id_draft = Inl ExpatError"
  by code_simp

end
